theory Spec2Isabelle
  imports Main "HOL-Library.Sublist"
begin

section \<open>Overview\<close>

text \<open>
  This theory embeds the task orchestrator of the studio backend: the extraction of the
  structured reply (\<^verbatim>\<open>extractJSONFromResponse\<close>), the path check (\<^verbatim>\<open>validateFilePath\<close>),
  the registry of function handlers (\<^verbatim>\<open>FUNCTION_HANDLERS\<close>) with its file handlers, and
  the loop (\<^verbatim>\<open>orchestrateTasks\<close>).

  JavaScript is dynamically typed, and the reply of the language model is parsed without
  any check of its shape. The loop is therefore modelled on every value that
  \<^verbatim>\<open>JSON.parse\<close> can return: a field may be missing or hold a value of another type than
  the interface \<^verbatim>\<open>GPTResponse\<close> declares, and the \<^verbatim>\<open>TypeError\<close> that the code then raises
  is a branch of the model, caught where the source catches it. What belongs to the
  runtime and not to the code (the wording of an error message, the printing and
  comparing of numbers) is a parameter of the model, next to the language model, the
  file system and the other collaborators.
\<close>

section \<open>Strings and JSON values\<close>

text \<open>
  The backend (\<^verbatim>\<open>code-lit-studio/backend/dist/server.js\<close>, the TypeScript part) works on
  JavaScript strings. Here a string is a \<^typ>\<open>char list\<close> holding the UTF-8 bytes of the
  text, so every ASCII character is one \<^typ>\<open>char\<close> and the operations used by the source
  (\<^verbatim>\<open>trim\<close>, \<^verbatim>\<open>startsWith\<close>, the search for braces, comparison, \<^verbatim>\<open>join\<close>) act on the bytes
  as they act on the text.
\<close>

datatype json =
    JNull
  | JBool bool
  | JNum string
  | JStr string
  | JArr "json list"
  | JObj "(string \<times> json) list"

text \<open>
  A JavaScript value that came out of \<^verbatim>\<open>JSON.parse\<close>, or \<^verbatim>\<open>undefined\<close> (\<open>None\<close>).
  A number is kept as its literal: the source never computes with one.
\<close>

type_synonym jsval = "json option"

text \<open>Reading a property of a parsed object: a repeated key keeps its last value.\<close>

definition obj_get :: "(string \<times> json) list \<Rightarrow> string \<Rightarrow> jsval" where
  "obj_get fs k = map_of (rev fs) k"

subsection \<open>\<^verbatim>\<open>String.prototype.trim\<close>\<close>

definition ascii_ws :: "char \<Rightarrow> bool" where
  "ascii_ws c \<longleftrightarrow> c \<in> set [CHR 0x09, CHR 0x0A, CHR 0x0B, CHR 0x0C, CHR 0x0D, CHR 0x20]"

text \<open>
  The other white space and line terminator code points of ECMAScript, as UTF-8:
  U+00A0, U+1680, U+2000 to U+200A, U+2028, U+2029, U+202F, U+205F, U+3000, U+FEFF.
\<close>

definition wide_ws :: "string list" where
  "wide_ws =
     [[CHR 0xC2, CHR 0xA0], [CHR 0xE1, CHR 0x9A, CHR 0x80],
      [CHR 0xE2, CHR 0x80, CHR 0x80], [CHR 0xE2, CHR 0x80, CHR 0x81],
      [CHR 0xE2, CHR 0x80, CHR 0x82], [CHR 0xE2, CHR 0x80, CHR 0x83],
      [CHR 0xE2, CHR 0x80, CHR 0x84], [CHR 0xE2, CHR 0x80, CHR 0x85],
      [CHR 0xE2, CHR 0x80, CHR 0x86], [CHR 0xE2, CHR 0x80, CHR 0x87],
      [CHR 0xE2, CHR 0x80, CHR 0x88], [CHR 0xE2, CHR 0x80, CHR 0x89],
      [CHR 0xE2, CHR 0x80, CHR 0x8A], [CHR 0xE2, CHR 0x80, CHR 0xA8],
      [CHR 0xE2, CHR 0x80, CHR 0xA9], [CHR 0xE2, CHR 0x80, CHR 0xAF],
      [CHR 0xE2, CHR 0x81, CHR 0x9F], [CHR 0xE3, CHR 0x80, CHR 0x80],
      [CHR 0xEF, CHR 0xBB, CHR 0xBF]]"

fun trimStart :: "string \<Rightarrow> string" where
  "trimStart [] = []"
| "trimStart (c # cs) =
     (if ascii_ws c then trimStart cs
      else if take 2 (c # cs) \<in> set wide_ws then trimStart (drop 1 cs)
      else if take 3 (c # cs) \<in> set wide_ws then trimStart (drop 2 cs)
      else c # cs)"

fun trimEndRev :: "string \<Rightarrow> string" where
  "trimEndRev [] = []"
| "trimEndRev (c # cs) =
     (if ascii_ws c then trimEndRev cs
      else if rev (take 2 (c # cs)) \<in> set wide_ws then trimEndRev (drop 1 cs)
      else if rev (take 3 (c # cs)) \<in> set wide_ws then trimEndRev (drop 2 cs)
      else c # cs)"

definition trim :: "string \<Rightarrow> string" where
  "trim s = rev (trimEndRev (rev (trimStart s)))"

subsection \<open>\<^verbatim>\<open>JSON.parse\<close>\<close>

text \<open>
  \<^verbatim>\<open>JSON.parse\<close> is a builtin of the language. It is modelled as a lexer followed by a
  push-down recogniser for the JSON grammar; \<open>None\<close> is the \<^verbatim>\<open>SyntaxError\<close>.
\<close>

definition hex_val :: "char \<Rightarrow> nat option" where
  "hex_val c =
     (let n = (of_char c :: nat) in
      if 48 \<le> n \<and> n \<le> 57 then Some (n - 48)
      else if 97 \<le> n \<and> n \<le> 102 then Some (n - 87)
      else if 65 \<le> n \<and> n \<le> 70 then Some (n - 55)
      else None)"

definition hex4 :: "string \<Rightarrow> nat option" where
  "hex4 s =
     (case s of
        a # b # c # d # _ \<Rightarrow>
          (case (hex_val a, hex_val b, hex_val c, hex_val d) of
             (Some w, Some x, Some y, Some z) \<Rightarrow> Some (((w * 16 + x) * 16 + y) * 16 + z)
           | _ \<Rightarrow> None)
      | _ \<Rightarrow> None)"

definition utf8 :: "nat \<Rightarrow> string" where
  "utf8 n =
     (if n < 0x80 then [char_of n]
      else if n < 0x800 then [char_of (0xC0 + n div 64), char_of (0x80 + n mod 64)]
      else if n < 0x10000 then
        [char_of (0xE0 + n div 4096), char_of (0x80 + (n div 64) mod 64), char_of (0x80 + n mod 64)]
      else
        [char_of (0xF0 + n div 262144), char_of (0x80 + (n div 4096) mod 64),
         char_of (0x80 + (n div 64) mod 64), char_of (0x80 + n mod 64)])"

definition simple_escape :: "char \<Rightarrow> char option" where
  "simple_escape e =
     (if e = CHR 0x22 then Some (CHR 0x22)
      else if e = CHR 0x5C then Some (CHR 0x5C)
      else if e = CHR ''/'' then Some (CHR ''/'')
      else if e = CHR ''b'' then Some (CHR 0x08)
      else if e = CHR ''f'' then Some (CHR 0x0C)
      else if e = CHR ''n'' then Some (CHR 0x0A)
      else if e = CHR ''r'' then Some (CHR 0x0D)
      else if e = CHR ''t'' then Some (CHR 0x09)
      else None)"

text \<open>The low half of a surrogate pair, written as a second \<^verbatim>\<open>\u\<close> escape.\<close>

definition low_escape :: "string \<Rightarrow> nat option" where
  "low_escape s =
     (case s of
        b # u # rest \<Rightarrow>
          (if b = CHR 0x5C \<and> u = CHR ''u'' then
             (case hex4 rest of
                Some m \<Rightarrow> if 0xDC00 \<le> m \<and> m \<le> 0xDFFF then Some m else None
              | None \<Rightarrow> None)
           else None)
      | _ \<Rightarrow> None)"

text \<open>The characters of a string literal after its opening quote; \<open>acc\<close> is reversed.\<close>

fun lex_string :: "string \<Rightarrow> string \<Rightarrow> (string \<times> string) option" where
  "lex_string acc [] = None"
| "lex_string acc (c # cs) =
     (if c = CHR 0x22 then Some (rev acc, cs)
      else if c = CHR 0x5C then
        (case cs of
           [] \<Rightarrow> None
         | e # es \<Rightarrow>
             (if e = CHR ''u'' then
                (case hex4 es of
                   None \<Rightarrow> None
                 | Some n \<Rightarrow>
                     (if 0xD800 \<le> n \<and> n \<le> 0xDBFF then
                        (case low_escape (drop 4 es) of
                           Some m \<Rightarrow>
                             lex_string
                               (rev (utf8 (0x10000 + (n - 0xD800) * 0x400 + (m - 0xDC00))) @ acc)
                               (drop 10 es)
                         | None \<Rightarrow> lex_string (rev (utf8 n) @ acc) (drop 4 es))
                      else lex_string (rev (utf8 n) @ acc) (drop 4 es)))
              else
                (case simple_escape e of
                   None \<Rightarrow> None
                 | Some ch \<Rightarrow> lex_string (ch # acc) es)))
      else if (of_char c :: nat) < 0x20 then None
      else lex_string (c # acc) cs)"

definition is_digit :: "char \<Rightarrow> bool" where
  "is_digit c \<longleftrightarrow> 48 \<le> (of_char c :: nat) \<and> (of_char c :: nat) \<le> 57"

text \<open>The optional fraction and the optional exponent of a number: the literal text and the rest.\<close>

definition lex_fraction :: "string \<Rightarrow> (string \<times> string) option" where
  "lex_fraction s =
     (case s of
        c # cs \<Rightarrow>
          (if c = CHR ''.'' then
             (if takeWhile is_digit cs = [] then None
              else Some (c # takeWhile is_digit cs, dropWhile is_digit cs))
           else Some ([], s))
      | [] \<Rightarrow> Some ([], s))"

definition lex_exponent :: "string \<Rightarrow> (string \<times> string) option" where
  "lex_exponent s =
     (case s of
        c # cs \<Rightarrow>
          (if c = CHR ''e'' \<or> c = CHR ''E'' then
             (let sg = (case cs of d # _ \<Rightarrow> if d = CHR ''+'' \<or> d = CHR ''-'' then [d] else [] | [] \<Rightarrow> []);
                  ds = drop (length sg) cs
              in if takeWhile is_digit ds = [] then None
                 else Some (c # sg @ takeWhile is_digit ds, dropWhile is_digit ds))
           else Some ([], s))
      | [] \<Rightarrow> Some ([], s))"

definition lex_number :: "string \<Rightarrow> (string \<times> string) option" where
  "lex_number s =
     (let sg = (case s of c # _ \<Rightarrow> if c = CHR ''-'' then [c] else [] | [] \<Rightarrow> []);
          s1 = drop (length sg) s;
          ip = takeWhile is_digit s1
      in if ip = [] \<or> (take 1 ip = ''0'' \<and> 1 < length ip) then None
         else
           (case lex_fraction (dropWhile is_digit s1) of
              None \<Rightarrow> None
            | Some (fr, s2) \<Rightarrow>
                (case lex_exponent s2 of
                   None \<Rightarrow> None
                 | Some (ex, s3) \<Rightarrow> Some (sg @ ip @ fr @ ex, s3))))"

datatype token = TLBrace | TRBrace | TLBrack | TRBrack | TColon | TComma | TVal json

definition json_ws :: "char \<Rightarrow> bool" where
  "json_ws c \<longleftrightarrow> c = CHR 0x20 \<or> c = CHR 0x09 \<or> c = CHR 0x0A \<or> c = CHR 0x0D"

lemma lex_string_shorter: "lex_string acc s = Some (r, rest) \<Longrightarrow> length rest < length s"
proof (induction acc s rule: lex_string.induct)
  case (1 acc)
  then show ?case by simp
next
  case (2 acc c cs)
  show ?case
  proof (cases "c = CHR 0x22")
    case True
    with "2.prems" show ?thesis by simp
  next
    case notq: False
    show ?thesis
    proof (cases "c = CHR 0x5C")
      case False
      with notq "2.prems" "2.IH"(5) show ?thesis
        by (fastforce split: if_splits)
    next
      case True
      with notq "2.prems" obtain e es where cs: "cs = e # es"
        by (cases cs) auto
      show ?thesis
      proof (cases "e = CHR ''u''")
        case False
        with notq True cs "2.prems" "2.IH"(4)[OF notq True cs False] show ?thesis
          by (fastforce split: option.splits)
      next
        case u: True
        with notq True cs "2.prems" obtain n where n: "hex4 es = Some n"
          by (auto split: option.splits)
        show ?thesis
        proof (cases "0xD800 \<le> n \<and> n \<le> 0xDBFF")
          case False
          with notq True cs u n "2.prems" "2.IH"(3)[OF notq True cs u n False]
          have "length rest < length (drop 4 es)" by auto
          with cs show ?thesis by simp
        next
          case hi: True
          show ?thesis
          proof (cases "low_escape (drop 4 es)")
            case None
            with notq True cs u n hi "2.prems" "2.IH"(1)[OF notq True cs u n hi None]
            have "length rest < length (drop 4 es)" by auto
            with cs show ?thesis by simp
          next
            case (Some m)
            with notq True cs u n hi "2.prems" "2.IH"(2)[OF notq True cs u n hi Some]
            have "length rest < length (drop 10 es)" by auto
            with cs show ?thesis by simp
          qed
        qed
      qed
    qed
  qed
qed

lemma lex_fraction_le: "lex_fraction s = Some (f, rest) \<Longrightarrow> length rest \<le> length s"
  by (auto simp: lex_fraction_def split: list.splits if_splits
      intro: le_SucI length_dropWhile_le)

lemma lex_exponent_le: "lex_exponent s = Some (f, rest) \<Longrightarrow> length rest \<le> length s"
  by (auto simp: lex_exponent_def Let_def split: list.splits if_splits
      intro: le_SucI length_dropWhile_le)

lemma lex_number_shorter: "lex_number s = Some (l, rest) \<Longrightarrow> length rest < length s"
proof -
  assume a: "lex_number s = Some (l, rest)"
  define sg where "sg = (case s of c # _ \<Rightarrow> if c = CHR ''-'' then [c] else [] | [] \<Rightarrow> [])"
  define s1 where "s1 = drop (length sg) s"
  from a have ne: "takeWhile is_digit s1 \<noteq> []"
    by (auto simp: lex_number_def Let_def sg_def s1_def split: if_splits)
  from a obtain fr s2 ex where
    f: "lex_fraction (dropWhile is_digit s1) = Some (fr, s2)" and e: "lex_exponent s2 = Some (ex, rest)"
    by (auto simp: lex_number_def Let_def sg_def s1_def split: if_splits option.splits)
  have "length (takeWhile is_digit s1) + length (dropWhile is_digit s1) = length s1"
    by (metis length_append takeWhile_dropWhile_id)
  with ne have "length (dropWhile is_digit s1) < length s1"
    by (cases "takeWhile is_digit s1") auto
  moreover have "length s1 \<le> length s" by (simp add: s1_def)
  ultimately show ?thesis
    using lex_fraction_le [OF f] lex_exponent_le [OF e] by linarith
qed

text \<open>Cutting the text into tokens; \<open>None\<close> when some character starts no token.\<close>

function tokenize :: "string \<Rightarrow> token list option" where
  "tokenize [] = Some []"
| "tokenize (c # cs) =
     (if json_ws c then tokenize cs
      else if c = CHR ''{'' then map_option (Cons TLBrace) (tokenize cs)
      else if c = CHR ''}'' then map_option (Cons TRBrace) (tokenize cs)
      else if c = CHR ''['' then map_option (Cons TLBrack) (tokenize cs)
      else if c = CHR '']'' then map_option (Cons TRBrack) (tokenize cs)
      else if c = CHR '':'' then map_option (Cons TColon) (tokenize cs)
      else if c = CHR '','' then map_option (Cons TComma) (tokenize cs)
      else if c = CHR 0x22 then
        (case lex_string [] cs of
           None \<Rightarrow> None
         | Some (str, rest) \<Rightarrow> map_option (Cons (TVal (JStr str))) (tokenize rest))
      else if take 4 (c # cs) = ''true'' then
        map_option (Cons (TVal (JBool True))) (tokenize (drop 3 cs))
      else if take 5 (c # cs) = ''false'' then
        map_option (Cons (TVal (JBool False))) (tokenize (drop 4 cs))
      else if take 4 (c # cs) = ''null'' then
        map_option (Cons (TVal JNull)) (tokenize (drop 3 cs))
      else
        (case lex_number (c # cs) of
           None \<Rightarrow> None
         | Some (lit, rest) \<Rightarrow> map_option (Cons (TVal (JNum lit))) (tokenize rest)))"
  by pat_completeness auto

termination
proof (relation "measure length")
  fix c cs x2 str rest
  assume "lex_string [] cs = Some x2" "(str, rest) = x2"
  then show "(rest, c # cs) \<in> measure length"
    using lex_string_shorter [of "[]" cs str rest] by simp
next
  fix c cs x2 lit rest
  assume "lex_number (c # cs) = Some x2" "(lit, rest) = x2"
  then show "(rest, c # cs) \<in> measure length"
    using lex_number_shorter [of "c # cs" lit rest] by simp
qed simp_all

text \<open>
  The recogniser keeps a stack of the containers that are open. A frame holds what the
  container has collected so far, newest first.
\<close>

datatype frame =
    FArr "json list"
  | FObj "(string \<times> json) list"
  | FKey "(string \<times> json) list" string

datatype mode = Val | ValOrClose | KeyOrClose | Key | Colon | Sep | End json

text \<open>A value is complete: it is the whole text, or it goes into the innermost container.\<close>

fun complete :: "json \<Rightarrow> frame list \<Rightarrow> (frame list \<times> mode) option" where
  "complete v [] = Some ([], End v)"
| "complete v (FArr xs # st) = Some (FArr (v # xs) # st, Sep)"
| "complete v (FKey fs k # st) = Some (FObj ((k, v) # fs) # st, Sep)"
| "complete v (FObj fs # st) = None"

definition begin_value :: "frame list \<Rightarrow> token \<Rightarrow> (frame list \<times> mode) option" where
  "begin_value st t =
     (case t of
        TVal v \<Rightarrow> complete v st
      | TLBrack \<Rightarrow> Some (FArr [] # st, ValOrClose)
      | TLBrace \<Rightarrow> Some (FObj [] # st, KeyOrClose)
      | _ \<Rightarrow> None)"

definition begin_key :: "frame list \<Rightarrow> token \<Rightarrow> (frame list \<times> mode) option" where
  "begin_key st t =
     (case (st, t) of
        (FObj fs # st', TVal (JStr k)) \<Rightarrow> Some (FKey fs k # st', Colon)
      | _ \<Rightarrow> None)"

definition close_container :: "frame list \<Rightarrow> token \<Rightarrow> (frame list \<times> mode) option" where
  "close_container st t =
     (case (st, t) of
        (FArr xs # st', TRBrack) \<Rightarrow> complete (JArr (rev xs)) st'
      | (FObj fs # st', TRBrace) \<Rightarrow> complete (JObj (rev fs)) st'
      | _ \<Rightarrow> None)"

definition pstep :: "frame list \<times> mode \<Rightarrow> token \<Rightarrow> (frame list \<times> mode) option" where
  "pstep s t =
     (case s of (st, m) \<Rightarrow>
        (case m of
           Val \<Rightarrow> begin_value st t
         | ValOrClose \<Rightarrow> (if t = TRBrack then close_container st t else begin_value st t)
         | KeyOrClose \<Rightarrow> (if t = TRBrace then close_container st t else begin_key st t)
         | Key \<Rightarrow> begin_key st t
         | Colon \<Rightarrow> (if t = TColon then Some (st, Val) else None)
         | Sep \<Rightarrow>
             (if t = TComma then
                (case st of
                   FArr xs # _ \<Rightarrow> Some (st, Val)
                 | FObj fs # _ \<Rightarrow> Some (st, Key)
                 | _ \<Rightarrow> None)
              else close_container st t)
         | End v \<Rightarrow> None))"

fun pfold :: "frame list \<times> mode \<Rightarrow> token list \<Rightarrow> (frame list \<times> mode) option" where
  "pfold s [] = Some s"
| "pfold s (t # ts) = (case pstep s t of None \<Rightarrow> None | Some s' \<Rightarrow> pfold s' ts)"

definition JSON_parse :: "string \<Rightarrow> json option" where
  "JSON_parse text =
     (case tokenize text of
        None \<Rightarrow> None
      | Some ts \<Rightarrow>
          (case pfold ([], Val) ts of
             Some ([], End v) \<Rightarrow> Some v
           | _ \<Rightarrow> None))"

section \<open>Extracting the structured reply\<close>

text \<open>
  \<^verbatim>\<open>responseText.match(/(\{[\s\S]*\})/)\<close>: the leftmost match starts at the first
  \<^verbatim>\<open>{\<close> of the text, and the greedy star takes it to the last \<^verbatim>\<open>}\<close> after that brace.
  There is no match when no \<^verbatim>\<open>}\<close> follows the first \<^verbatim>\<open>{\<close>.
\<close>

definition jsonRegex_match :: "string \<Rightarrow> string option" where
  "jsonRegex_match responseText =
     (case dropWhile (\<lambda>c. c \<noteq> CHR ''{'') responseText of
        [] \<Rightarrow> None
      | b # after \<Rightarrow>
          (case rev (dropWhile (\<lambda>c. c \<noteq> CHR ''}'') (rev after)) of
             [] \<Rightarrow> None
           | body \<Rightarrow> Some (b # body)))"

definition extractJSONFromResponse :: "string \<Rightarrow> json option" where
  "extractJSONFromResponse responseText =
     (case jsonRegex_match responseText of
        None \<Rightarrow> None
      | Some m \<Rightarrow>
          (case JSON_parse m of
             Some parsed \<Rightarrow> Some parsed
           | None \<Rightarrow> None))"

section \<open>Paths\<close>

text \<open>
  The functions of Node's \<^verbatim>\<open>path\<close> module that the backend calls, in their POSIX form.
  A path is cut at every \<^verbatim>\<open>/\<close>; empty segments and \<^verbatim>\<open>.\<close> vanish, and \<^verbatim>\<open>..\<close> removes
  the segment before it. Above the root \<^verbatim>\<open>..\<close> is dropped; in a relative path it is kept.
\<close>

fun split_slash :: "string \<Rightarrow> string \<Rightarrow> string list" where
  "split_slash seg [] = [rev seg]"
| "split_slash seg (c # cs) =
     (if c = CHR ''/'' then rev seg # split_slash [] cs else split_slash (c # seg) cs)"

text \<open>\<open>res\<close> holds the segments kept so far, the last one first.\<close>

fun normalizeSegments :: "bool \<Rightarrow> string list \<Rightarrow> string list \<Rightarrow> string list" where
  "normalizeSegments allowAboveRoot res [] = rev res"
| "normalizeSegments allowAboveRoot res (seg # segs) =
     (if seg = [] \<or> seg = ''.'' then normalizeSegments allowAboveRoot res segs
      else if seg = ''..'' then
        (case res of
           lastSeg # below \<Rightarrow>
             (if lastSeg = ''..'' then normalizeSegments allowAboveRoot (seg # res) segs
              else normalizeSegments allowAboveRoot below segs)
         | [] \<Rightarrow>
             (if allowAboveRoot then normalizeSegments allowAboveRoot [seg] segs
              else normalizeSegments allowAboveRoot [] segs))
      else normalizeSegments allowAboveRoot (seg # res) segs)"

fun join_with :: "string \<Rightarrow> string list \<Rightarrow> string" where
  "join_with sep [] = []"
| "join_with sep [x] = x"
| "join_with sep (x # y # ys) = x @ sep @ join_with sep (y # ys)"

definition normalizeString :: "string \<Rightarrow> bool \<Rightarrow> string" where
  "normalizeString path allowAboveRoot =
     join_with ''/'' (normalizeSegments allowAboveRoot [] (split_slash [] path))"

definition isAbsolute :: "string \<Rightarrow> bool" where
  "isAbsolute path \<longleftrightarrow> take 1 path = ''/''"

definition path_normalize :: "string \<Rightarrow> string" where
  "path_normalize path =
     (if path = [] then ''.''
      else
        (let trailingSeparator = (last path = CHR ''/'');
             body = normalizeString path (\<not> isAbsolute path)
         in if body = [] then
              (if isAbsolute path then ''/'' else if trailingSeparator then ''./'' else ''.'')
            else
              (if isAbsolute path then ''/'' else []) @ body
                @ (if trailingSeparator then ''/'' else [])))"

definition path_join :: "string list \<Rightarrow> string" where
  "path_join args =
     (case filter (\<lambda>a. a \<noteq> []) args of
        [] \<Rightarrow> ''.''
      | parts \<Rightarrow> path_normalize (join_with ''/'' parts))"

text \<open>
  \<^verbatim>\<open>path.resolve\<close> walks its arguments from the right until the path built so far is
  absolute, and falls back on the working directory.
\<close>

fun resolve_args :: "string list \<Rightarrow> string \<Rightarrow> string" where
  "resolve_args [] resolvedPath = resolvedPath"
| "resolve_args (path # earlier) resolvedPath =
     (if path = [] then resolve_args earlier resolvedPath
      else if isAbsolute path then path @ ''/'' @ resolvedPath
      else resolve_args earlier (path @ ''/'' @ resolvedPath))"

definition path_resolve :: "string \<Rightarrow> string list \<Rightarrow> string" where
  "path_resolve cwd args =
     (let resolvedPath = resolve_args (rev (cwd # args)) [];
          resolvedAbsolute = isAbsolute resolvedPath;
          body = normalizeString resolvedPath (\<not> resolvedAbsolute)
      in if resolvedAbsolute then ''/'' @ body
         else if body = [] then ''.'' else body)"

text \<open>
  \<^verbatim>\<open>path.extname\<close>: from the last dot of the last path component, unless that component
  has no dot, starts with its only dot, or is \<^verbatim>\<open>..\<close>.
\<close>

definition basename_of :: "string \<Rightarrow> string" where
  "basename_of path =
     rev (takeWhile (\<lambda>c. c \<noteq> CHR ''/'') (dropWhile (\<lambda>c. c = CHR ''/'') (rev path)))"

definition path_extname :: "string \<Rightarrow> string" where
  "path_extname path =
     (let base = basename_of path;
          ext = rev (takeWhile (\<lambda>c. c \<noteq> CHR ''.'') (rev base))
      in if CHR ''.'' \<notin> set base then []
         else if length ext + 1 = length base then []
         else if base = ''..'' then []
         else CHR ''.'' # ext)"

text \<open>
  \<^verbatim>\<open>toLowerCase\<close> on the ASCII letters. The result is only compared with the three
  allowed extensions, and no other character lower-cases to a letter of those.
\<close>

definition lower_char :: "char \<Rightarrow> char" where
  "lower_char c =
     (let n = (of_char c :: nat) in if 65 \<le> n \<and> n \<le> 90 then char_of (n + 32) else c)"

definition toLowerCase :: "string \<Rightarrow> string" where
  "toLowerCase s = map lower_char s"

definition ALLOWED_EXTENSIONS :: "string list" where
  "ALLOWED_EXTENSIONS = [''.html'', ''.css'', ''.js'']"

text \<open>\<^verbatim>\<open>PROJECTS_DIR = path.join(__dirname, 'projects')\<close>\<close>

definition PROJECTS_DIR :: "string \<Rightarrow> string" where
  "PROJECTS_DIR dirname = path_join [dirname, ''projects'']"

text \<open>
  \<^verbatim>\<open>validateFilePath\<close>; \<open>dirname\<close> is \<^verbatim>\<open>__dirname\<close> and \<open>cwd\<close> the working directory
  of the process.
\<close>

definition validateFilePath :: "string \<Rightarrow> string \<Rightarrow> string \<Rightarrow> string \<Rightarrow> bool" where
  "validateFilePath dirname cwd projectId filename =
     (let projectDir = path_join [PROJECTS_DIR dirname, projectId];
          resolved = path_resolve cwd [projectDir, filename]
      in if \<not> prefix projectDir resolved then False
         else if toLowerCase (path_extname resolved) \<notin> set ALLOWED_EXTENSIONS then False
         else True)"

section \<open>Values at run time\<close>

text \<open>
  The interfaces \<^verbatim>\<open>GPTResponse\<close>, \<^verbatim>\<open>GPTFunctionCall\<close> and \<^verbatim>\<open>MetaAction\<close> are erased when
  the backend runs: the loop works on whatever \<^verbatim>\<open>JSON.parse\<close> returned. This section has
  the operations of the language that the loop applies to such a value.
\<close>

text \<open>
  Reading one of the properties that the backend reads (\<^verbatim>\<open>explanation\<close>,
  \<^verbatim>\<open>function_calls\<close>, \<^verbatim>\<open>meta_actions\<close>, \<^verbatim>\<open>name\<close>, \<^verbatim>\<open>arguments\<close>, \<^verbatim>\<open>action\<close>, \<^verbatim>\<open>target\<close>,
  \<^verbatim>\<open>filename\<close>, \<^verbatim>\<open>content\<close>) from a value other than \<^verbatim>\<open>null\<close>. An object has the
  property when it lists the key; no prototype defines any of these names, so every
  other value gives \<^verbatim>\<open>undefined\<close>.
\<close>

definition get_prop :: "json \<Rightarrow> string \<Rightarrow> jsval" where
  "get_prop v k = (case v of JObj fs \<Rightarrow> obj_get fs k | _ \<Rightarrow> None)"

text \<open>
  \<^verbatim>\<open>ToString\<close>, which a template literal, a property key and \<^verbatim>\<open>Array.prototype.join\<close>
  apply to a value. An object is converted by its \<^verbatim>\<open>toString\<close> method. A parsed object
  that lists a key \<^verbatim>\<open>toString\<close> holds there a value that is no function; \<^verbatim>\<open>valueOf\<close> is
  tried next and gives no primitive value either, so the conversion throws a
  \<^verbatim>\<open>TypeError\<close>. Every other parsed object inherits \<^verbatim>\<open>Object.prototype.toString\<close>. An array
  is converted by \<^verbatim>\<open>join\<close>, which converts each element and takes \<^verbatim>\<open>null\<close> as the empty
  string.
\<close>

fun unprintable :: "json \<Rightarrow> bool" where
  "unprintable (JObj fs) = (''toString'' \<in> set (map fst fs))"
| "unprintable (JArr xs) = list_ex unprintable xs"
| "unprintable v = False"

text \<open>
  The text of a value that can be converted; \<open>num\<close> is the conversion of a number, given
  the literal it was parsed from.
\<close>

fun printed :: "(string \<Rightarrow> string) \<Rightarrow> json \<Rightarrow> string" where
  "printed num JNull = ''null''"
| "printed num (JBool b) = (if b then ''true'' else ''false'')"
| "printed num (JNum l) = num l"
| "printed num (JStr s) = s"
| "printed num (JArr xs) =
     join_with '','' (map (\<lambda>x. if x = JNull then [] else printed num x) xs)"
| "printed num (JObj fs) = ''[object Object]''"

text \<open>
  \<^verbatim>\<open>for (const c of s)\<close> on a string yields its code points, each as a string. In UTF-8 a
  code point is a byte that is no continuation byte, followed by continuation bytes.
\<close>

definition continuation_byte :: "char \<Rightarrow> bool" where
  "continuation_byte c \<longleftrightarrow> 128 \<le> (of_char c :: nat) \<and> (of_char c :: nat) < 192"

function code_points :: "string \<Rightarrow> string list" where
  "code_points [] = []"
| "code_points (c # cs) =
     (c # takeWhile continuation_byte cs) # code_points (dropWhile continuation_byte cs)"
  by pat_completeness auto

termination
  by (relation "measure length") (auto intro: le_imp_less_Suc length_dropWhile_le)

section \<open>The collaborators\<close>

datatype role = User | Assistant | System

record message =
  role :: role
  content :: jsval

text \<open>
  The \<^verbatim>\<open>TypeError\<close>s that the runtime raises in the code of the loop and of the file
  handlers. The wording of their messages belongs to the JavaScript engine and to Node.
\<close>

datatype type_error =
    Not_iterable json
  | Property_of_null string
  | Not_primitive
  | Not_a_function string
  | No_receiver string jsval
  | Cannot_destructure jsval
  | Invalid_arg_type jsval

text \<open>
  \<^item> \<open>Not_iterable v\<close>: \<^verbatim>\<open>for (... of v)\<close> on a value that cannot be iterated.
  \<^item> \<open>Property_of_null k\<close>: reading the property \<open>k\<close> of \<^verbatim>\<open>null\<close>.
  \<^item> \<open>Not_primitive\<close>: converting an object that has no primitive value.
  \<^item> \<open>Not_a_function e\<close>: calling the value of the expression \<open>e\<close>, which is no function.
  \<^item> \<open>No_receiver m a\<close>: the member \<open>m\<close> of \<^verbatim>\<open>Object.prototype\<close>, called as a plain function
    with first argument \<open>a\<close>, needs the receiver it does not have.
  \<^item> \<open>Cannot_destructure v\<close>: \<^verbatim>\<open>const { ... } = v\<close> for \<^verbatim>\<open>undefined\<close> or \<^verbatim>\<open>null\<close>.
  \<^item> \<open>Invalid_arg_type v\<close>: \<^verbatim>\<open>path.resolve\<close> got \<open>v\<close>, which is no string.
\<close>

text \<open>
  Everything outside the code of the loop is taken as given: the language model, the
  file system, the clock, the Socket.IO server, the processes and the database behind the
  other handlers are a world of type \<open>'w\<close>, and the part of the runtime whose result
  depends on the arithmetic of numbers or on the wording of an error is a field of the
  record below. An operation that can throw returns \<open>Inl\<close> of the error's message.
\<close>

type_synonym ('w, 'a) io = "'w \<Rightarrow> (string + 'a) \<times> 'w"

record 'w env =
  dirname :: string
  cwd :: string
  createChatCompletion :: "message list \<Rightarrow> ('w, string option) io"
  io_emit :: "json \<Rightarrow> 'w \<Rightarrow> 'w"
  existsSync :: "string \<Rightarrow> 'w \<Rightarrow> bool"
  readFileSync :: "string \<Rightarrow> 'w \<Rightarrow> string + string"
  writeFileSync :: "string \<Rightarrow> jsval \<Rightarrow> ('w, unit) io"
  unlinkSync :: "string \<Rightarrow> ('w, unit) io"
  mkdirSync :: "string \<Rightarrow> bool \<Rightarrow> ('w, unit) io"
  copyFileSync :: "string \<Rightarrow> string \<Rightarrow> ('w, unit) io"
  toISOString :: "'w \<Rightarrow> string"
  external_handler :: "string \<Rightarrow> jsval \<Rightarrow> string \<Rightarrow> ('w, jsval) io"
  errorMessage :: "type_error \<Rightarrow> string"
  numberToString :: "string \<Rightarrow> string"
  numberIsZero :: "string \<Rightarrow> bool"
  numberIsPositive :: "string \<Rightarrow> bool"
  stringIsPositive :: "string \<Rightarrow> bool"

text \<open>
  \<^item> \<open>createChatCompletion\<close> gives \<^verbatim>\<open>response.data.choices[0].message?.content\<close>, \<open>None\<close>
    when the message or its content is missing; \<open>Inl\<close> is any exception raised while the
    reply is obtained.
  \<^item> \<open>io_emit\<close> is \<^verbatim>\<open>io.emit('metaAction', payload)\<close>.
  \<^item> \<open>writeFileSync\<close> gets the data as the handler got it; Node decides what happens to
    data that is no string.
  \<^item> \<open>mkdirSync\<close> takes the \<^verbatim>\<open>recursive\<close> option as its second argument.
  \<^item> \<open>toISOString\<close> is \<^verbatim>\<open>new Date().toISOString()\<close>.
  \<^item> \<open>external_handler name\<close> is the handler registered under \<open>name\<close> for the process,
    database and dashboard operations, with the value it returns. A run is followed as
    long as the process lives: the exit that \<^verbatim>\<open>stopBackendServer\<close> schedules for a second
    later is not part of it.
  \<^item> \<open>errorMessage\<close> is the \<^verbatim>\<open>message\<close> of a \<^verbatim>\<open>TypeError\<close>.
  \<^item> \<open>numberToString l\<close> is the text of the number with literal \<open>l\<close>; \<open>numberIsZero l\<close> and
    \<open>numberIsPositive l\<close> tell whether that number is zero and whether it is above zero.
  \<^item> \<open>stringIsPositive s\<close> tells whether the string \<open>s\<close>, converted to a number, is above
    zero.
\<close>

definition ToString :: "'w env \<Rightarrow> jsval \<Rightarrow> string + string" where
  "ToString env v =
     (case v of
        None \<Rightarrow> Inr ''undefined''
      | Some j \<Rightarrow>
          if unprintable j then Inl (errorMessage env Not_primitive)
          else Inr (printed (numberToString env) j))"

text \<open>\<^verbatim>\<open>names.join(',')\<close>: \<^verbatim>\<open>undefined\<close> and \<^verbatim>\<open>null\<close> give the empty string.\<close>

definition Array_join :: "'w env \<Rightarrow> jsval list \<Rightarrow> string + string" where
  "Array_join env xs =
     (if list_ex (\<lambda>x. case x of None \<Rightarrow> False | Some j \<Rightarrow> unprintable j) xs then
        Inl (errorMessage env Not_primitive)
      else
        Inr (join_with '',''
               (map (\<lambda>x. case x of
                           None \<Rightarrow> []
                         | Some j \<Rightarrow> if j = JNull then [] else printed (numberToString env) j)
                  xs)))"

text \<open>The test \<^verbatim>\<open>!v\<close> on a parsed value.\<close>

definition falsy :: "'w env \<Rightarrow> json \<Rightarrow> bool" where
  "falsy env v =
     (case v of
        JNull \<Rightarrow> True
      | JBool b \<Rightarrow> \<not> b
      | JNum l \<Rightarrow> numberIsZero env l
      | JStr s \<Rightarrow> s = []
      | JArr xs \<Rightarrow> False
      | JObj fs \<Rightarrow> False)"

text \<open>
  \<^verbatim>\<open>v.length === 0\<close> for a value that is not falsy: an array has its number of elements,
  a string that is not empty has a positive length, an object has the property when it
  lists it, and a boolean or a number has none.
\<close>

definition length_is_zero :: "'w env \<Rightarrow> json \<Rightarrow> bool" where
  "length_is_zero env v =
     (case v of
        JArr xs \<Rightarrow> xs = []
      | JObj fs \<Rightarrow> (case obj_get fs ''length'' of Some (JNum l) \<Rightarrow> numberIsZero env l | _ \<Rightarrow> False)
      | _ \<Rightarrow> False)"

text \<open>
  \<^verbatim>\<open>v > 0\<close>, for the \<^verbatim>\<open>length\<close> that a parsed object lists. The comparison converts an
  array or an object to a string first, which can throw, and then to a number; the text
  \<^verbatim>\<open>[object Object]\<close> is no number.
\<close>

definition above_zero :: "'w env \<Rightarrow> jsval \<Rightarrow> string + bool" where
  "above_zero env v =
     (case v of
        None \<Rightarrow> Inr False
      | Some JNull \<Rightarrow> Inr False
      | Some (JBool b) \<Rightarrow> Inr b
      | Some (JNum l) \<Rightarrow> Inr (numberIsPositive env l)
      | Some (JStr s) \<Rightarrow> Inr (stringIsPositive env s)
      | Some (JArr xs) \<Rightarrow>
          if unprintable (JArr xs) then Inl (errorMessage env Not_primitive)
          else Inr (stringIsPositive env (printed (numberToString env) (JArr xs)))
      | Some (JObj fs) \<Rightarrow>
          if unprintable (JObj fs) then Inl (errorMessage env Not_primitive) else Inr False)"

definition bind_io :: "('w, 'a) io \<Rightarrow> ('a \<Rightarrow> ('w, 'b) io) \<Rightarrow> ('w, 'b) io" where
  "bind_io m f w = (case m w of (Inl e, w') \<Rightarrow> (Inl e, w') | (Inr a, w') \<Rightarrow> f a w')"

definition ensureProjectDir :: "'w env \<Rightarrow> string \<Rightarrow> ('w, unit) io" where
  "ensureProjectDir env projectId w =
     (let projectDir = path_join [PROJECTS_DIR (dirname env), projectId]
      in if \<not> existsSync env projectDir w then mkdirSync env projectDir True w
         else (Inr (), w))"

definition createBackup :: "'w env \<Rightarrow> string \<Rightarrow> string \<Rightarrow> ('w, unit) io" where
  "createBackup env projectId filename =
     (let projectDir = path_join [PROJECTS_DIR (dirname env), projectId];
          backupsDir = path_join [projectDir, ''.backups''];
          originalFile = path_join [projectDir, filename]
      in bind_io (ensureProjectDir env projectId) (\<lambda>_.
         bind_io (\<lambda>w. if \<not> existsSync env backupsDir w then mkdirSync env backupsDir False w
                       else (Inr (), w)) (\<lambda>_ w.
           if existsSync env originalFile w then
             (let timestamp =
                    map (\<lambda>c. if c = CHR '':'' \<or> c = CHR ''.'' then CHR ''-'' else c)
                      (toISOString env w);
                  backupFile = path_join [backupsDir, filename @ ''.'' @ timestamp @ ''.bak'']
              in copyFileSync env originalFile backupFile w)
           else (Inr (), w))))"

section \<open>The function handlers\<close>

text \<open>
  A handler gets \<^verbatim>\<open>funcCall.arguments\<close> and the project, and returns a value or throws.
  The file handlers start alike. \<^verbatim>\<open>const { filename } = args\<close> throws when \<^verbatim>\<open>args\<close> is
  \<^verbatim>\<open>undefined\<close> or \<^verbatim>\<open>null\<close>. The template of the first \<^verbatim>\<open>console.log\<close> converts \<^verbatim>\<open>filename\<close>
  to a string. \<^verbatim>\<open>validateFilePath\<close> passes \<^verbatim>\<open>filename\<close> to \<^verbatim>\<open>path.resolve\<close>, which throws
  unless it is a string. \<open>Inr f\<close>: the file name is the string \<open>f\<close> and passed the check.
\<close>

definition destructure :: "'w env \<Rightarrow> jsval \<Rightarrow> string + json" where
  "destructure env args =
     (case args of
        None \<Rightarrow> Inl (errorMessage env (Cannot_destructure None))
      | Some v \<Rightarrow> if v = JNull then Inl (errorMessage env (Cannot_destructure (Some JNull))) else Inr v)"

definition checked_filename :: "'w env \<Rightarrow> string \<Rightarrow> jsval \<Rightarrow> string + string" where
  "checked_filename env projectId filename =
     (case ToString env filename of
        Inl e \<Rightarrow> Inl e
      | Inr text \<Rightarrow>
          (case filename of
             Some (JStr f) \<Rightarrow>
               if \<not> validateFilePath (dirname env) (cwd env) projectId f then Inl ''Invalid file path''
               else Inr f
           | _ \<Rightarrow> Inl (errorMessage env (Invalid_arg_type filename))))"

definition meta_action :: "string \<Rightarrow> string \<Rightarrow> (string \<times> json) list \<Rightarrow> json" where
  "meta_action a t d = JObj [(''action'', JStr a), (''target'', JStr t), (''data'', JObj d)]"

definition readFile :: "'w env \<Rightarrow> jsval \<Rightarrow> string \<Rightarrow> ('w, string) io" where
  "readFile env args projectId w =
     (case destructure env args of
        Inl e \<Rightarrow> (Inl e, w)
      | Inr a \<Rightarrow>
          (case checked_filename env projectId (get_prop a ''filename'') of
             Inl e \<Rightarrow> (Inl e, w)
           | Inr filename \<Rightarrow>
               (let filePath = path_join [PROJECTS_DIR (dirname env), projectId, filename]
                in if \<not> existsSync env filePath w then (Inl ''File does not exist'', w)
                   else (readFileSync env filePath w, w))))"

definition writeFile :: "'w env \<Rightarrow> jsval \<Rightarrow> string \<Rightarrow> ('w, string) io" where
  "writeFile env args projectId w =
     (case destructure env args of
        Inl e \<Rightarrow> (Inl e, w)
      | Inr a \<Rightarrow>
          (case checked_filename env projectId (get_prop a ''filename'') of
             Inl e \<Rightarrow> (Inl e, w)
           | Inr filename \<Rightarrow>
               bind_io (createBackup env projectId filename) (\<lambda>_.
               bind_io
                 (writeFileSync env
                    (path_join [PROJECTS_DIR (dirname env), projectId, filename])
                    (get_prop a ''content''))
                 (\<lambda>_ w'.
                    (Inr (''File '' @ filename @ '' written successfully.''),
                     io_emit env
                       (meta_action ''refresh_component'' ''fileViewer''
                          [(''projectId'', JStr projectId), (''filename'', JStr filename)])
                       w'))) w))"

definition createFile :: "'w env \<Rightarrow> jsval \<Rightarrow> string \<Rightarrow> ('w, string) io" where
  "createFile env args projectId w =
     (case destructure env args of
        Inl e \<Rightarrow> (Inl e, w)
      | Inr a \<Rightarrow>
          (case checked_filename env projectId (get_prop a ''filename'') of
             Inl e \<Rightarrow> (Inl e, w)
           | Inr filename \<Rightarrow>
               (let filePath = path_join [PROJECTS_DIR (dirname env), projectId, filename]
                in if existsSync env filePath w then (Inl ''File already exists'', w)
                   else
                     bind_io (writeFileSync env filePath (get_prop a ''content'')) (\<lambda>_ w'.
                       (Inr (''File '' @ filename @ '' created successfully.''),
                        io_emit env
                          (meta_action ''render_table'' ''projectFilesTable''
                             [(''projectId'', JStr projectId)])
                          w')) w)))"

definition deleteFile :: "'w env \<Rightarrow> jsval \<Rightarrow> string \<Rightarrow> ('w, string) io" where
  "deleteFile env args projectId w =
     (case destructure env args of
        Inl e \<Rightarrow> (Inl e, w)
      | Inr a \<Rightarrow>
          (case checked_filename env projectId (get_prop a ''filename'') of
             Inl e \<Rightarrow> (Inl e, w)
           | Inr filename \<Rightarrow>
               (let filePath = path_join [PROJECTS_DIR (dirname env), projectId, filename]
                in if \<not> existsSync env filePath w then (Inl ''File does not exist'', w)
                   else
                     bind_io (createBackup env projectId filename) (\<lambda>_.
                     bind_io (unlinkSync env filePath) (\<lambda>_ w'.
                       (Inr (''File '' @ filename @ '' deleted successfully.''),
                        io_emit env
                          (meta_action ''refresh_component'' ''fileList''
                             [(''projectId'', JStr projectId)])
                          w'))) w)))"

definition refreshUI :: "'w env \<Rightarrow> jsval \<Rightarrow> string \<Rightarrow> ('w, string) io" where
  "refreshUI env args projectId w =
     (Inr (''UI refresh triggered for project '' @ projectId),
      io_emit env (meta_action ''refresh_page'' ''main'' [(''projectId'', JStr projectId)]) w)"

text \<open>
  \<^verbatim>\<open>FUNCTION_HANDLERS\<close> is an object literal, so \<^verbatim>\<open>FUNCTION_HANDLERS[name]\<close> finds the
  keys the literal lists and, failing that, what every object inherits from
  \<^verbatim>\<open>Object.prototype\<close>.
\<close>

definition FUNCTION_HANDLERS_keys :: "string list" where
  "FUNCTION_HANDLERS_keys =
     [''readFile'', ''writeFile'', ''createFile'', ''deleteFile'', ''refreshUI'',
      ''stopWebsite'', ''restartWebsite'', ''stopBackendServer'', ''restartBackendServer'',
      ''installSqlite'', ''initSqliteDB'', ''runSqlQuery'', ''createChart'', ''renderTable'',
      ''displayLogs'']"

definition Object_prototype_keys :: "string list" where
  "Object_prototype_keys =
     [''constructor'', ''__defineGetter__'', ''__defineSetter__'', ''hasOwnProperty'',
      ''__lookupGetter__'', ''__lookupSetter__'', ''isPrototypeOf'', ''propertyIsEnumerable'',
      ''toString'', ''valueOf'', ''__proto__'', ''toLocaleString'']"

datatype handler_ref = Registered string | Inherited string | Undefined_handler

definition lookup_handler :: "string \<Rightarrow> handler_ref" where
  "lookup_handler name =
     (if name \<in> set FUNCTION_HANDLERS_keys then Registered name
      else if name \<in> set Object_prototype_keys then Inherited name
      else Undefined_handler)"

text \<open>
  A member of \<^verbatim>\<open>Object.prototype\<close>, called as \<^verbatim>\<open>handler(funcCall.arguments, projectId)\<close>
  with no receiver:
  \<^item> \<^verbatim>\<open>toString\<close> returns \<^verbatim>\<open>[object Undefined]\<close>;
  \<^item> \<^verbatim>\<open>constructor\<close> is \<^verbatim>\<open>Object\<close>, which returns a new empty object for \<^verbatim>\<open>undefined\<close> and
    \<^verbatim>\<open>null\<close>, an object or array itself, and for any other value a wrapper that prints as
    the value does;
  \<^item> \<^verbatim>\<open>isPrototypeOf\<close> returns \<^verbatim>\<open>false\<close> for an argument that is no object, before it
    looks at its receiver;
  \<^item> \<^verbatim>\<open>__proto__\<close> is the prototype itself, an object that cannot be called;
  \<^item> every other member throws, because there is no receiver.
\<close>

definition is_object :: "jsval \<Rightarrow> bool" where
  "is_object v = (case v of Some (JObj fs) \<Rightarrow> True | Some (JArr xs) \<Rightarrow> True | _ \<Rightarrow> False)"

definition call_inherited :: "'w env \<Rightarrow> string \<Rightarrow> jsval \<Rightarrow> string + jsval" where
  "call_inherited env name arg =
     (if name = ''toString'' then Inr (Some (JStr ''[object Undefined]''))
      else if name = ''constructor'' then
        Inr (Some (case arg of None \<Rightarrow> JObj [] | Some v \<Rightarrow> if v = JNull then JObj [] else v))
      else if name = ''isPrototypeOf'' \<and> \<not> is_object arg then Inr (Some (JBool False))
      else if name = ''__proto__'' then Inl (errorMessage env (Not_a_function ''handler''))
      else Inl (errorMessage env (No_receiver name arg)))"

text \<open>A file handler returns a string.\<close>

definition returned :: "(string + string) \<times> 'w \<Rightarrow> (string + jsval) \<times> 'w" where
  "returned r = (case r of (Inl e, w) \<Rightarrow> (Inl e, w) | (Inr s, w) \<Rightarrow> (Inr (Some (JStr s)), w))"

text \<open>\<^verbatim>\<open>await handler(funcCall.arguments, projectId)\<close>\<close>

definition call_handler ::
  "'w env \<Rightarrow> handler_ref \<Rightarrow> jsval \<Rightarrow> string \<Rightarrow> ('w, jsval) io" where
  "call_handler env h args projectId w =
     (case h of
        Registered name \<Rightarrow>
          (if name = ''readFile'' then returned (readFile env args projectId w)
           else if name = ''writeFile'' then returned (writeFile env args projectId w)
           else if name = ''createFile'' then returned (createFile env args projectId w)
           else if name = ''deleteFile'' then returned (deleteFile env args projectId w)
           else if name = ''refreshUI'' then returned (refreshUI env args projectId w)
           else external_handler env name args projectId w)
      | Inherited name \<Rightarrow> (call_inherited env name args, w)
      | Undefined_handler \<Rightarrow> (Inl (errorMessage env (Not_a_function ''handler'')), w))"

section \<open>The orchestration loop\<close>

datatype status = Success | Error

record FunctionResult =
  functionName :: jsval
  status :: status
  detail :: jsval

text \<open>
  \<open>functionName\<close> is the field \<^verbatim>\<open>function\<close>; \<open>detail\<close> is \<^verbatim>\<open>result\<close> of a success and
  \<^verbatim>\<open>error\<close>, the message of what was thrown, of a failure.
\<close>

text \<open>
  One round of \<^verbatim>\<open>for (const funcCall of parsedResponse.function_calls)\<close>. \<open>Inl\<close> is a
  \<^verbatim>\<open>TypeError\<close> that leaves the \<^verbatim>\<open>for\<close> loop: \<^verbatim>\<open>funcCall.name\<close> on \<^verbatim>\<open>null\<close>, or a name that
  cannot be converted to the property key that \<^verbatim>\<open>FUNCTION_HANDLERS[funcCall.name]\<close> needs.
  What a handler throws is caught in the round.
\<close>

definition dispatch_call :: "'w env \<Rightarrow> string \<Rightarrow> json \<Rightarrow> ('w, FunctionResult) io" where
  "dispatch_call env projectId funcCall w =
     (if funcCall = JNull then (Inl (errorMessage env (Property_of_null ''name'')), w)
      else
        (let name = get_prop funcCall ''name''
         in case ToString env name of
              Inl e \<Rightarrow> (Inl e, w)
            | Inr key \<Rightarrow>
                (case lookup_handler key of
                   Undefined_handler \<Rightarrow>
                     (Inr \<lparr>functionName = name, status = Error,
                           detail = Some (JStr ''Unknown function'')\<rparr>, w)
                 | handler \<Rightarrow>
                     (case call_handler env handler (get_prop funcCall ''arguments'') projectId w of
                        (Inr result, w') \<Rightarrow>
                          (Inr \<lparr>functionName = name, status = Success, detail = result\<rparr>, w')
                      | (Inl msg, w') \<Rightarrow>
                          (Inr \<lparr>functionName = name, status = Error, detail = Some (JStr msg)\<rparr>,
                           w')))))"

record batch =
  allSucceeded :: bool
  functionCallNames :: "jsval list"
  functionResults :: "FunctionResult list"

text \<open>
  The \<^verbatim>\<open>for\<close> loop. The first component is the \<^verbatim>\<open>TypeError\<close> that ended it, if any, with
  the calls dispatched before it in the batch.
\<close>

fun execute_calls ::
  "'w env \<Rightarrow> string \<Rightarrow> json list \<Rightarrow> batch \<Rightarrow> 'w \<Rightarrow> string option \<times> batch \<times> 'w" where
  "execute_calls env projectId [] b w = (None, b, w)"
| "execute_calls env projectId (funcCall # rest) b w =
     (case dispatch_call env projectId funcCall w of
        (Inl e, w') \<Rightarrow> (Some e, b, w')
      | (Inr r, w') \<Rightarrow>
          execute_calls env projectId rest
            \<lparr>allSucceeded = (allSucceeded b \<and> status r = Success),
             functionCallNames = functionCallNames b @ [functionName r],
             functionResults = functionResults b @ [r]\<rparr> w')"

text \<open>
  What the loop iterates over: the elements of an array, the code points of a string;
  nothing else that \<^verbatim>\<open>JSON.parse\<close> returns can be iterated.
\<close>

definition iterate :: "'w env \<Rightarrow> jsval \<Rightarrow> string + json list" where
  "iterate env v =
     (case v of
        Some (JArr xs) \<Rightarrow> Inr xs
      | Some (JStr s) \<Rightarrow> Inr (map JStr (code_points s))
      | Some j \<Rightarrow> Inl (errorMessage env (Not_iterable j))
      | None \<Rightarrow> Inl (errorMessage env (Not_iterable JNull)))"

text \<open>
  The message for one result; its template converts the name and the result. The two
  marks are U+2705 and U+274C.
\<close>

definition result_message :: "'w env \<Rightarrow> FunctionResult \<Rightarrow> string + message" where
  "result_message env res =
     (case ToString env (functionName res) of
        Inl e \<Rightarrow> Inl e
      | Inr name \<Rightarrow>
          (case ToString env (detail res) of
             Inl e \<Rightarrow> Inl e
           | Inr text \<Rightarrow>
               if status res = Success then
                 Inr \<lparr>role = System,
                      content = Some (JStr ([CHR 0xE2, CHR 0x9C, CHR 0x85] @ '' '' @ name
                                             @ '' succeeded: '' @ text))\<rparr>
               else
                 Inr \<lparr>role = System,
                      content = Some (JStr ([CHR 0xE2, CHR 0x9D, CHR 0x8C] @ '' '' @ name
                                             @ '' failed: '' @ text))\<rparr>))"

text \<open>
  The state of one run. \<open>llm_calls\<close> and \<open>executed\<close> are not variables of the source:
  they count the requests sent to the model and log the function calls dispatched.
\<close>

record 'w orch =
  messages :: "message list"
  iteration :: nat
  lastFunctionCalls :: "jsval list"
  consecutiveFailures :: nat
  world :: 'w
  llm_calls :: nat
  executed :: "FunctionResult list"

definition MAX_ITERATIONS :: nat where
  "MAX_ITERATIONS = 20"

definition push :: "role \<Rightarrow> jsval \<Rightarrow> 'w orch \<Rightarrow> 'w orch" where
  "push r c st = st\<lparr>messages := messages st @ [\<lparr>role = r, content = c\<rparr>]\<rparr>"

definition system_message :: "string \<Rightarrow> message" where
  "system_message text = \<lparr>role = System, content = Some (JStr text)\<rparr>"

text \<open>The \<^verbatim>\<open>catch\<close> of the loop, which is followed by \<^verbatim>\<open>break\<close>.\<close>

definition caught :: "string \<Rightarrow> 'w orch \<Rightarrow> 'w orch" where
  "caught msg st = push System (Some (JStr (''Error during orchestration: '' @ msg))) st"

text \<open>
  \<^verbatim>\<open>functionResults.forEach\<close>: one message per result, up to the first whose template
  throws.
\<close>

fun push_results :: "'w env \<Rightarrow> FunctionResult list \<Rightarrow> 'w orch \<Rightarrow> string option \<times> 'w orch" where
  "push_results env [] st = (None, st)"
| "push_results env (res # rest) st =
     (case result_message env res of
        Inl e \<Rightarrow> (Some e, st)
      | Inr m \<Rightarrow> push_results env rest (st\<lparr>messages := messages st @ [m]\<rparr>))"

text \<open>\<^verbatim>\<open>!parsedResponse.function_calls || parsedResponse.function_calls.length === 0\<close>\<close>

definition no_calls :: "'w env \<Rightarrow> jsval \<Rightarrow> bool" where
  "no_calls env v =
     (case v of None \<Rightarrow> True | Some j \<Rightarrow> falsy env j \<or> length_is_zero env j)"

text \<open>
  The callback of \<^verbatim>\<open>meta_actions.forEach\<close> emits the entry and then logs a line whose
  template reads \<^verbatim>\<open>metaAction.action\<close> and \<^verbatim>\<open>metaAction.target\<close> and converts them. This is
  the error of that line, if there is one.
\<close>

definition log_meta_action :: "'w env \<Rightarrow> json \<Rightarrow> string option" where
  "log_meta_action env metaAction =
     (if metaAction = JNull then Some (errorMessage env (Property_of_null ''action''))
      else
        (case ToString env (get_prop metaAction ''action'') of
           Inl e \<Rightarrow> Some e
         | Inr a \<Rightarrow>
             (case ToString env (get_prop metaAction ''target'') of
                Inl e \<Rightarrow> Some e
              | Inr t \<Rightarrow> None)))"

fun forEach_meta_action :: "'w env \<Rightarrow> json list \<Rightarrow> 'w \<Rightarrow> string option \<times> 'w" where
  "forEach_meta_action env [] w = (None, w)"
| "forEach_meta_action env (metaAction # rest) w =
     (let w' = io_emit env metaAction w
      in case log_meta_action env metaAction of
           Some e \<Rightarrow> (Some e, w')
         | None \<Rightarrow> forEach_meta_action env rest w')"

text \<open>
  \<^verbatim>\<open>if (meta_actions && meta_actions.length > 0) meta_actions.forEach(...)\<close>. A boolean or
  a number has no length. A string that is not empty and an object whose \<^verbatim>\<open>length\<close> is
  above zero have no method \<^verbatim>\<open>forEach\<close>. The first component is the error thrown, if any.
\<close>

definition emit_meta_actions :: "'w env \<Rightarrow> jsval \<Rightarrow> 'w \<Rightarrow> string option \<times> 'w" where
  "emit_meta_actions env v w =
     (case v of
        None \<Rightarrow> (None, w)
      | Some JNull \<Rightarrow> (None, w)
      | Some (JBool b) \<Rightarrow> (None, w)
      | Some (JNum n) \<Rightarrow> (None, w)
      | Some (JStr s) \<Rightarrow>
          (if s = [] then (None, w)
           else (Some (errorMessage env (Not_a_function ''parsedResponse.meta_actions.forEach'')), w))
      | Some (JArr xs) \<Rightarrow> forEach_meta_action env xs w
      | Some (JObj fs) \<Rightarrow>
          (case above_zero env (obj_get fs ''length'') of
             Inl e \<Rightarrow> (Some e, w)
           | Inr positive \<Rightarrow>
               if positive then
                 (Some (errorMessage env (Not_a_function ''parsedResponse.meta_actions.forEach'')), w)
               else (None, w)))"

datatype 'w flow = Next "'w orch" | Break "'w orch"

text \<open>
  The end of an iteration that ran a batch: the repeat warning, \<^verbatim>\<open>lastFunctionCalls\<close>,
  the meta-actions and \<^verbatim>\<open>iteration++\<close>.
\<close>

definition detect_repeat :: "'w env \<Rightarrow> json \<Rightarrow> batch \<Rightarrow> 'w orch \<Rightarrow> 'w flow" where
  "detect_repeat env parsedResponse b st =
     (case Array_join env (functionCallNames b) of
        Inl e \<Rightarrow> Break (caught e st)
      | Inr newCallsStr \<Rightarrow>
          (case Array_join env (lastFunctionCalls st) of
             Inl e \<Rightarrow> Break (caught e st)
           | Inr oldCallsStr \<Rightarrow>
               (let st1 = (if newCallsStr = oldCallsStr then
                             push System
                               (Some (JStr ''You are repeating the same function calls as before. Please propose a different approach or end.''))
                               st
                           else st);
                    st2 = st1\<lparr>lastFunctionCalls := functionCallNames b\<rparr>
                in case emit_meta_actions env (get_prop parsedResponse ''meta_actions'') (world st2) of
                     (Some e, w) \<Rightarrow> Break (caught e (st2\<lparr>world := w\<rparr>))
                   | (None, w) \<Rightarrow> Next (st2\<lparr>world := w, iteration := iteration st2 + 1\<rparr>))))"

text \<open>The failure streak, checked right after the results were appended.\<close>

definition handle_failures :: "'w env \<Rightarrow> json \<Rightarrow> batch \<Rightarrow> 'w orch \<Rightarrow> 'w flow" where
  "handle_failures env parsedResponse b st =
     (if \<not> allSucceeded b then
        (let st1 = st\<lparr>consecutiveFailures := consecutiveFailures st + 1\<rparr>
         in if consecutiveFailures st1 \<ge> 3 then
              Break (push System
                       (Some (JStr ''Multiple consecutive failures. Ending orchestration.'')) st1)
            else
              detect_repeat env parsedResponse b
                (push System
                   (Some (JStr ''Some tasks failed. Please adjust your instructions or try a different approach.''))
                   st1))
      else detect_repeat env parsedResponse b (st\<lparr>consecutiveFailures := 0\<rparr>))"

text \<open>
  The first part of an iteration: the request, the parse, and either a stop or the batch
  with its result messages appended.
\<close>

datatype 'w half =
    Stopped "'w orch"
  | Batched json batch "'w orch"

definition asked :: "'w \<Rightarrow> 'w orch \<Rightarrow> 'w orch" where
  "asked w st = st\<lparr>world := w, llm_calls := Suc (llm_calls st)\<rparr>"

text \<open>The batch and its messages, for a response that proposes calls.\<close>

definition run_batch :: "'w env \<Rightarrow> string \<Rightarrow> json \<Rightarrow> 'w orch \<Rightarrow> 'w half" where
  "run_batch env projectId parsedResponse st =
     (case iterate env (get_prop parsedResponse ''function_calls'') of
        Inl e \<Rightarrow> Stopped (caught e st)
      | Inr calls \<Rightarrow>
          (case execute_calls env projectId calls
                  \<lparr>allSucceeded = True, functionCallNames = [], functionResults = []\<rparr> (world st) of
             (Some e, b, w) \<Rightarrow>
               Stopped (caught e (st\<lparr>world := w, executed := executed st @ functionResults b\<rparr>))
           | (None, b, w) \<Rightarrow>
               (case push_results env (functionResults b)
                       (st\<lparr>world := w, executed := executed st @ functionResults b\<rparr>) of
                  (Some e, st') \<Rightarrow> Stopped (caught e st')
                | (None, st') \<Rightarrow> Batched parsedResponse b st')))"

definition request_and_execute :: "'w env \<Rightarrow> string \<Rightarrow> 'w orch \<Rightarrow> 'w half" where
  "request_and_execute env projectId st =
     (case createChatCompletion env (messages st) (world st) of
        (Inl msg, w) \<Rightarrow> Stopped (caught msg (asked w st))
      | (Inr reply, w) \<Rightarrow>
          (case map_option trim reply of
             None \<Rightarrow> Stopped (asked w st)
           | Some gptReply \<Rightarrow>
               if gptReply = [] then Stopped (asked w st)
               else
                 (case extractJSONFromResponse gptReply of
                    None \<Rightarrow> Stopped (push Assistant (Some (JStr gptReply)) (asked w st))
                  | Some parsedResponse \<Rightarrow>
                      if falsy env parsedResponse then
                        Stopped (push Assistant (Some (JStr gptReply)) (asked w st))
                      else
                        (let st1 = push Assistant (get_prop parsedResponse ''explanation'')
                                     (asked w st)
                         in if no_calls env (get_prop parsedResponse ''function_calls'') then
                              (case emit_meta_actions env (get_prop parsedResponse ''meta_actions'')
                                      (world st1) of
                                 (None, w') \<Rightarrow> Stopped (st1\<lparr>world := w'\<rparr>)
                               | (Some e, w') \<Rightarrow> Stopped (caught e (st1\<lparr>world := w'\<rparr>)))
                            else run_batch env projectId parsedResponse st1))))"

definition iteration_body :: "'w env \<Rightarrow> string \<Rightarrow> 'w orch \<Rightarrow> 'w flow" where
  "iteration_body env projectId st =
     (case request_and_execute env projectId st of
        Stopped st' \<Rightarrow> Break st'
      | Batched parsedResponse b st' \<Rightarrow> handle_failures env parsedResponse b st')"

lemma detect_repeat_iteration:
  "detect_repeat env p b st = Next st' \<Longrightarrow> iteration st' = Suc (iteration st)"
  by (auto simp: detect_repeat_def Let_def push_def split: sum.splits prod.splits option.splits if_splits)

lemma handle_failures_iteration:
  "handle_failures env p b st = Next st' \<Longrightarrow> iteration st' = Suc (iteration st)"
  by (auto simp: handle_failures_def Let_def push_def dest!: detect_repeat_iteration
      split: if_splits)

lemma push_results_iteration:
  "push_results env rs st = (e, st') \<Longrightarrow> iteration st' = iteration st"
  by (induction rs arbitrary: st) (auto split: sum.splits)

lemma run_batch_iteration:
  "run_batch env projectId p st = Batched p' b st' \<Longrightarrow> iteration st' = iteration st"
  by (auto simp: run_batch_def dest!: push_results_iteration
      split: sum.splits prod.splits option.splits)

lemma request_and_execute_iteration:
  "request_and_execute env projectId st = Batched p b st' \<Longrightarrow> iteration st' = iteration st"
  by (auto simp: request_and_execute_def Let_def push_def asked_def dest!: run_batch_iteration
      split: prod.splits sum.splits option.splits if_splits)

lemma iteration_body_Next:
  assumes "iteration_body env projectId st = Next st'"
  shows "iteration st' = Suc (iteration st)"
proof (cases "request_and_execute env projectId st")
  case (Batched p b s)
  with assms have "handle_failures env p b s = Next st'"
    by (simp add: iteration_body_def)
  then have "iteration st' = Suc (iteration s)"
    by (rule handle_failures_iteration)
  with request_and_execute_iteration [OF Batched] show ?thesis by simp
qed (use assms in \<open>simp_all add: iteration_body_def\<close>)

text \<open>\<^verbatim>\<open>while (iteration < MAX_ITERATIONS)\<close>\<close>

function loop :: "'w env \<Rightarrow> string \<Rightarrow> 'w orch \<Rightarrow> 'w orch" where
  "loop env projectId st =
     (if iteration st < MAX_ITERATIONS then
        (case iteration_body env projectId st of
           Next st' \<Rightarrow> loop env projectId st'
         | Break st' \<Rightarrow> st')
      else st)"
  by pat_completeness auto

termination
  by (relation "measure (\<lambda>(env, projectId, st). MAX_ITERATIONS - iteration st)")
    (auto dest: iteration_body_Next)

declare loop.simps [simp del]

definition finish :: "'w orch \<Rightarrow> 'w orch" where
  "finish st =
     (if iteration st = MAX_ITERATIONS then
        push System (Some (JStr ''Max iterations reached. Orchestration ended.'')) st
      else st)"

definition initial_state :: "message list \<Rightarrow> 'w \<Rightarrow> 'w orch" where
  "initial_state initialMessages w =
     \<lparr>messages = initialMessages, iteration = 0, lastFunctionCalls = [],
      consecutiveFailures = 0, world = w, llm_calls = 0, executed = []\<rparr>"

text \<open>
  \<^verbatim>\<open>orchestrateTasks\<close>: the final state, whose \<open>messages\<close> are what the source returns.
\<close>

definition orchestrateTasks :: "'w env \<Rightarrow> message list \<Rightarrow> string \<Rightarrow> 'w \<Rightarrow> 'w orch" where
  "orchestrateTasks env initialMessages projectId w =
     finish (loop env projectId (initial_state initialMessages w))"

section \<open>A simulated world\<close>

text \<open>
  A small world for running the loop on concrete inputs: the model answers from a script,
  the file system is a list of files and a list of directories, and every emitted payload
  is logged. Its errors are worded as V8 and Node word them, and its numbers are the
  plain decimal literals.
\<close>

record sim =
  replies :: "(string + string option) list"
  emitted :: "json list"
  files :: "(string \<times> string) list"
  directories :: "string list"

definition sim_errorMessage :: "type_error \<Rightarrow> string" where
  "sim_errorMessage e =
     (case e of
        Not_iterable v \<Rightarrow> ''parsedResponse.function_calls is not iterable''
      | Property_of_null k \<Rightarrow>
          ''Cannot read properties of null (reading '' @ [CHR 0x27] @ k @ [CHR 0x27] @ '')''
      | Not_primitive \<Rightarrow> ''Cannot convert object to primitive value''
      | Not_a_function f \<Rightarrow> f @ '' is not a function''
      | No_receiver m a \<Rightarrow> ''Cannot convert undefined or null to object''
      | Cannot_destructure v \<Rightarrow> ''Cannot destructure the arguments as they are undefined.''
      | Invalid_arg_type v \<Rightarrow> ''The path argument must be of type string.'')"

definition sim_mantissa :: "string \<Rightarrow> string" where
  "sim_mantissa l = takeWhile (\<lambda>c. c \<noteq> CHR ''e'' \<and> c \<noteq> CHR ''E'') l"

definition sim_env :: "sim env" where
  "sim_env =
     \<lparr>dirname = ''/srv/app'', cwd = ''/srv/app'',
      createChatCompletion =
        (\<lambda>msgs w. case replies w of [] \<Rightarrow> (Inr None, w) | r # rs \<Rightarrow> (r, w\<lparr>replies := rs\<rparr>)),
      io_emit = (\<lambda>a w. w\<lparr>emitted := emitted w @ [a]\<rparr>),
      existsSync = (\<lambda>p w. p \<in> set (map fst (files w)) \<or> p \<in> set (directories w)),
      readFileSync =
        (\<lambda>p w. case map_of (files w) p of Some c \<Rightarrow> Inr c | None \<Rightarrow> Inl ''ENOENT''),
      writeFileSync =
        (\<lambda>p d w. case d of
                    Some (JStr c) \<Rightarrow> (Inr (), w\<lparr>files := (p, c) # filter (\<lambda>f. fst f \<noteq> p) (files w)\<rparr>)
                  | _ \<Rightarrow> (Inl ''The data argument must be of type string.'', w)),
      unlinkSync = (\<lambda>p w. (Inr (), w\<lparr>files := filter (\<lambda>f. fst f \<noteq> p) (files w)\<rparr>)),
      mkdirSync = (\<lambda>p r w. (Inr (), w\<lparr>directories := p # directories w\<rparr>)),
      copyFileSync =
        (\<lambda>a b w. case map_of (files w) a of
                    Some c \<Rightarrow> (Inr (), w\<lparr>files := (b, c) # filter (\<lambda>f. fst f \<noteq> b) (files w)\<rparr>)
                  | None \<Rightarrow> (Inl ''ENOENT'', w)),
      toISOString = (\<lambda>w. ''2025-01-01T00:00:00.000Z''),
      external_handler = (\<lambda>name args projectId w. (Inr (Some (JStr (name @ '' done''))), w)),
      errorMessage = sim_errorMessage,
      numberToString = (\<lambda>l. l),
      numberIsZero = (\<lambda>l. list_all (\<lambda>c. c \<in> set ''-0.'') (sim_mantissa l)),
      numberIsPositive =
        (\<lambda>l. list_ex (\<lambda>c. c \<in> set ''123456789'') (sim_mantissa l) \<and> take 1 l \<noteq> ''-''),
      stringIsPositive =
        (\<lambda>s. list_ex (\<lambda>c. c \<in> set ''123456789'') s \<and> list_all (\<lambda>c. c \<in> set ''0123456789'') s)\<rparr>"

definition sim_world :: "(string + string option) list \<Rightarrow> sim" where
  "sim_world rs = \<lparr>replies = rs, emitted = [], files = [], directories = []\<rparr>"

text \<open>A simulated model that gives the same reply to every request.\<close>

definition always_env :: "string \<Rightarrow> sim env" where
  "always_env reply = sim_env\<lparr>createChatCompletion := (\<lambda>msgs w. (Inr (Some reply), w))\<rparr>"

text \<open>Replies of the simulated model.\<close>

definition refresh_reply :: string where
  \<open>refresh_reply = ''{"explanation":"ok","function_calls":[{"name":"refreshUI"}]}''\<close>



section \<open>Notions used in the statements\<close>

text \<open>
  \<open>reaches env projectId st0 st\<close>: the loop started in \<open>st0\<close> stands in \<open>st\<close> at the
  head of some later iteration.
\<close>

inductive reaches :: "'w env \<Rightarrow> string \<Rightarrow> 'w orch \<Rightarrow> 'w orch \<Rightarrow> bool"
  for env :: "'w env" and projectId :: string and st0 :: "'w orch" where
  here: "reaches env projectId st0 st0"
| step: "reaches env projectId st0 st \<Longrightarrow> iteration st < MAX_ITERATIONS \<Longrightarrow>
         iteration_body env projectId st = Next st' \<Longrightarrow> reaches env projectId st0 st'"




text \<open>The state at the end of an iteration, whether the loop goes on or not.\<close>

definition state_after :: "'w flow \<Rightarrow> 'w orch" where
  "state_after f = (case f of Next s \<Rightarrow> s | Break s \<Rightarrow> s)"

text \<open>
  A value that can be converted to a string, and a meta-action that the callback can log:
  it is not \<^verbatim>\<open>null\<close>, and its \<^verbatim>\<open>action\<close> and \<^verbatim>\<open>target\<close> can be converted. Every value of
  the type \<^verbatim>\<open>MetaAction\<close>, whose \<^verbatim>\<open>action\<close> and \<^verbatim>\<open>target\<close> are strings, is one.
\<close>

definition printable :: "jsval \<Rightarrow> bool" where
  "printable v = (case v of None \<Rightarrow> True | Some j \<Rightarrow> \<not> unprintable j)"

definition loggable :: "json \<Rightarrow> bool" where
  "loggable metaAction \<longleftrightarrow>
     metaAction \<noteq> JNull \<and> printable (get_prop metaAction ''action'')
     \<and> printable (get_prop metaAction ''target'')"

text \<open>
  The entries of \<^verbatim>\<open>meta_actions\<close>, and the responses whose \<^verbatim>\<open>meta_actions\<close> are missing or
  an array of entries that can be logged.
\<close>

definition meta_entries :: "jsval \<Rightarrow> json list" where
  "meta_entries v = (case v of Some (JArr xs) \<Rightarrow> xs | _ \<Rightarrow> [])"

definition meta_actions_loggable :: "jsval \<Rightarrow> bool" where
  "meta_actions_loggable v =
     (case v of None \<Rightarrow> True | Some (JArr xs) \<Rightarrow> list_all loggable xs | _ \<Rightarrow> False)"

text \<open>
  The entries of \<^verbatim>\<open>meta_actions\<close> up to the first one that cannot be logged, that one
  included.
\<close>

definition broadcast :: "jsval \<Rightarrow> json list" where
  "broadcast v =
     takeWhile loggable (meta_entries v) @ take 1 (dropWhile loggable (meta_entries v))"






section \<open>Properties of the parser\<close>

subsection \<open>A parsed text that opens with a brace is an object\<close>








subsection \<open>The strings of a parsed value are shorter than the text\<close>

















section \<open>The extraction of the structured reply\<close>

text \<open>
  C3. The claim: whenever the reply holds a well-formed JSON object, the extraction
  returns the parse of the first one. The source takes the text from the first opening
  brace to the last closing brace, so a reply with two objects (or with any closing brace
  after the first object) is not parsed at all: here the first object parses on its own,
  the match is the whole text, and the extraction returns nothing.
\<close>

theorem extractJSON_two_objects:
  \<open>JSON_parse ''{"a":1}'' = Some (JObj [(''a'', JNum ''1'')]) \<and>
   jsonRegex_match ''{"a":1} {"b":2}'' = Some ''{"a":1} {"b":2}'' \<and>
   extractJSONFromResponse ''{"a":1} {"b":2}'' = None\<close>
  by code_simp

section \<open>Runs\<close>

lemma loop_Break:
  "iteration st < MAX_ITERATIONS \<Longrightarrow> iteration_body env projectId st = Break st' \<Longrightarrow>
   loop env projectId st = st'"
  by (simp add: loop.simps [of env projectId st])

lemma loop_Next:
  "iteration st < MAX_ITERATIONS \<Longrightarrow> iteration_body env projectId st = Next st' \<Longrightarrow>
   loop env projectId st = loop env projectId st'"
  by (simp add: loop.simps [of env projectId st])

lemma loop_reaches: "reaches env projectId st0 st \<Longrightarrow> loop env projectId st0 = loop env projectId st"
  by (induction rule: reaches.induct) (simp_all add: loop_Next)

lemma run_reaches:
  "reaches env projectId (initial_state initialMessages w0) st \<Longrightarrow>
   orchestrateTasks env initialMessages projectId w0 = finish (loop env projectId st)"
  by (simp add: orchestrateTasks_def loop_reaches)

subsection \<open>What one iteration does to the counters\<close>

lemma caught_fields [simp]:
  "llm_calls (caught e s) = llm_calls s" "iteration (caught e s) = iteration s"
  "consecutiveFailures (caught e s) = consecutiveFailures s"
  "lastFunctionCalls (caught e s) = lastFunctionCalls s"
  "executed (caught e s) = executed s" "world (caught e s) = world s"
  "messages (caught e s) = messages s @ [system_message (''Error during orchestration: '' @ e)]"
  by (simp_all add: caught_def push_def system_message_def)

lemma push_fields [simp]:
  "llm_calls (push r c s) = llm_calls s" "iteration (push r c s) = iteration s"
  "consecutiveFailures (push r c s) = consecutiveFailures s"
  "lastFunctionCalls (push r c s) = lastFunctionCalls s"
  "executed (push r c s) = executed s" "world (push r c s) = world s"
  "messages (push r c s) = messages s @ [\<lparr>role = r, content = c\<rparr>]"
  by (simp_all add: push_def)

lemma asked_fields [simp]:
  "llm_calls (asked w s) = Suc (llm_calls s)" "iteration (asked w s) = iteration s"
  "consecutiveFailures (asked w s) = consecutiveFailures s"
  "lastFunctionCalls (asked w s) = lastFunctionCalls s"
  "executed (asked w s) = executed s" "world (asked w s) = w"
  "messages (asked w s) = messages s"
  by (simp_all add: asked_def)

lemma push_results_fields:
  "push_results env rs st = (e, st') \<Longrightarrow>
   llm_calls st' = llm_calls st \<and> iteration st' = iteration st \<and>
   consecutiveFailures st' = consecutiveFailures st \<and>
   lastFunctionCalls st' = lastFunctionCalls st \<and> executed st' = executed st \<and>
   world st' = world st"
  by (induction rs arbitrary: st) (auto split: sum.splits)

lemma run_batch_Stopped:
  "run_batch env projectId p st = Stopped s \<Longrightarrow>
   llm_calls s = llm_calls st \<and> iteration s = iteration st \<and>
   consecutiveFailures s = consecutiveFailures st \<and> lastFunctionCalls s = lastFunctionCalls st"
  by (auto simp: run_batch_def dest!: push_results_fields
      split: sum.splits prod.splits option.splits)

lemma run_batch_Batched:
  "run_batch env projectId p st = Batched p' b s \<Longrightarrow>
   p' = p \<and> llm_calls s = llm_calls st \<and> iteration s = iteration st \<and>
   consecutiveFailures s = consecutiveFailures st \<and> lastFunctionCalls s = lastFunctionCalls st \<and>
   executed s = executed st @ functionResults b"
  by (auto simp: run_batch_def dest!: push_results_fields
      split: sum.splits prod.splits option.splits)

lemma request_and_execute_Stopped:
  "request_and_execute env projectId st = Stopped s \<Longrightarrow>
   llm_calls s = Suc (llm_calls st) \<and> iteration s = iteration st \<and>
   consecutiveFailures s = consecutiveFailures st \<and> lastFunctionCalls s = lastFunctionCalls st"
  by (auto simp: request_and_execute_def Let_def dest!: run_batch_Stopped
      split: prod.splits sum.splits option.splits if_splits)

lemma request_and_execute_Batched:
  "request_and_execute env projectId st = Batched p b s \<Longrightarrow>
   llm_calls s = Suc (llm_calls st) \<and> iteration s = iteration st \<and>
   consecutiveFailures s = consecutiveFailures st \<and>
   lastFunctionCalls s = lastFunctionCalls st \<and>
   executed s = executed st @ functionResults b"
  by (auto simp: request_and_execute_def Let_def dest!: run_batch_Batched
      split: prod.splits sum.splits option.splits if_splits)

lemma detect_repeat_fields:
  "llm_calls (state_after (detect_repeat env p b s)) = llm_calls s \<and>
   consecutiveFailures (state_after (detect_repeat env p b s)) = consecutiveFailures s \<and>
   executed (state_after (detect_repeat env p b s)) = executed s"
  by (auto simp: detect_repeat_def state_after_def Let_def
      split: sum.splits prod.splits option.splits)

lemma detect_repeat_Next:
  "detect_repeat env p b s = Next st' \<Longrightarrow>
   iteration st' = Suc (iteration s) \<and> lastFunctionCalls st' = functionCallNames b"
  by (auto simp: detect_repeat_def Let_def split: sum.splits prod.splits option.splits if_splits)

lemma detect_repeat_Break:
  "detect_repeat env p b s = Break st' \<Longrightarrow> iteration st' = iteration s"
  by (auto simp: detect_repeat_def Let_def split: sum.splits prod.splits option.splits if_splits)

lemma handle_failures_fields:
  "llm_calls (state_after (handle_failures env p b s)) = llm_calls s \<and>
   executed (state_after (handle_failures env p b s)) = executed s \<and>
   consecutiveFailures (state_after (handle_failures env p b s))
     = (if allSucceeded b then 0 else Suc (consecutiveFailures s))"
  using detect_repeat_fields [of env p b]
  by (simp add: handle_failures_def Let_def state_after_def)

lemma handle_failures_Next:
  "handle_failures env p b s = Next st' \<Longrightarrow>
   llm_calls st' = llm_calls s \<and> iteration st' = Suc (iteration s) \<and> executed st' = executed s \<and>
   lastFunctionCalls st' = functionCallNames b \<and>
   consecutiveFailures st' = (if allSucceeded b then 0 else Suc (consecutiveFailures s))"
  using handle_failures_fields [of env p b s]
  by (auto simp: handle_failures_def Let_def state_after_def dest!: detect_repeat_Next
      split: if_splits)

lemma handle_failures_Break:
  "handle_failures env p b s = Break st' \<Longrightarrow>
   llm_calls st' = llm_calls s \<and> iteration st' = iteration s \<and> executed st' = executed s"
  using handle_failures_fields [of env p b s]
  by (auto simp: handle_failures_def Let_def state_after_def dest!: detect_repeat_Break
      split: if_splits)

lemma iteration_body_Next_counts:
  assumes "iteration_body env projectId st = Next st'"
  shows "llm_calls st' = Suc (llm_calls st) \<and> iteration st' = Suc (iteration st)"
proof (cases "request_and_execute env projectId st")
  case (Batched p b s)
  with assms have "handle_failures env p b s = Next st'"
    by (simp add: iteration_body_def)
  from handle_failures_Next [OF this] request_and_execute_Batched [OF Batched]
  show ?thesis by simp
qed (use assms in \<open>simp_all add: iteration_body_def\<close>)

lemma iteration_body_Break_counts:
  assumes "iteration_body env projectId st = Break st'"
  shows "llm_calls st' = Suc (llm_calls st) \<and> iteration st' = iteration st"
proof (cases "request_and_execute env projectId st")
  case (Stopped s)
  with assms request_and_execute_Stopped [OF Stopped] show ?thesis
    by (simp add: iteration_body_def)
next
  case (Batched p b s)
  with assms have "handle_failures env p b s = Break st'"
    by (simp add: iteration_body_def)
  from handle_failures_Break [OF this] request_and_execute_Batched [OF Batched]
  show ?thesis by simp
qed

lemma loop_counts:
  "iteration st \<le> MAX_ITERATIONS \<Longrightarrow>
   iteration st \<le> iteration (loop env projectId st) \<and>
   (iteration (loop env projectId st) = MAX_ITERATIONS
      \<and> llm_calls (loop env projectId st) = llm_calls st + (MAX_ITERATIONS - iteration st)
    \<or> iteration (loop env projectId st) < MAX_ITERATIONS
       \<and> llm_calls (loop env projectId st)
           = Suc (llm_calls st + (iteration (loop env projectId st) - iteration st)))"
proof (induction env projectId st rule: loop.induct)
  case (1 env projectId st)
  show ?case
  proof (cases "iteration st < MAX_ITERATIONS")
    case False
    with "1.prems" have "loop env projectId st = st" "iteration st = MAX_ITERATIONS"
      by (simp_all add: loop.simps [of env projectId st])
    then show ?thesis by simp
  next
    case True
    show ?thesis
    proof (cases "iteration_body env projectId st")
      case (Next s)
      from iteration_body_Next_counts [OF Next] True
      have c: "llm_calls s = Suc (llm_calls st)" "iteration s = Suc (iteration st)"
        "iteration s \<le> MAX_ITERATIONS" by simp_all
      have "loop env projectId st = loop env projectId s"
        by (rule loop_Next [OF True Next])
      with "1.IH" [OF True Next c(3)] c True show ?thesis
        by auto
    next
      case (Break s)
      with True have "loop env projectId st = s"
        by (simp add: loop.simps [of env projectId st])
      with iteration_body_Break_counts [OF Break] True show ?thesis by simp
    qed
  qed
qed

text \<open>
  C1. Whatever the language model, the handlers and the runtime do, and whatever the
  replies hold, a run sends at most \<open>MAX_ITERATIONS = 20\<close> requests to the model, one per
  iteration, and returns. It completes all 20 iterations exactly when the counter ends at
  20, and then the last message of the transcript is the system message that notes the
  bound. A run that stops earlier leaves the counter below 20.
\<close>

theorem orchestrateTasks_bounded:
  "MAX_ITERATIONS = 20 \<and>
   llm_calls (orchestrateTasks env initialMessages projectId w) \<le> MAX_ITERATIONS \<and>
   iteration (orchestrateTasks env initialMessages projectId w) \<le> MAX_ITERATIONS \<and>
   (iteration (orchestrateTasks env initialMessages projectId w) = MAX_ITERATIONS \<longrightarrow>
      llm_calls (orchestrateTasks env initialMessages projectId w) = MAX_ITERATIONS \<and>
      last (messages (orchestrateTasks env initialMessages projectId w))
        = system_message ''Max iterations reached. Orchestration ended.'') \<and>
   (iteration (orchestrateTasks env initialMessages projectId w) < MAX_ITERATIONS \<longrightarrow>
      llm_calls (orchestrateTasks env initialMessages projectId w)
        = Suc (iteration (orchestrateTasks env initialMessages projectId w)))"
proof -
  define s where "s = loop env projectId (initial_state initialMessages w)"
  have st: "orchestrateTasks env initialMessages projectId w = finish s"
    by (simp add: orchestrateTasks_def s_def)
  have "iteration (initial_state initialMessages w) \<le> MAX_ITERATIONS"
    by (simp add: initial_state_def)
  from loop_counts [OF this, of env projectId]
  have c: "iteration s = MAX_ITERATIONS \<and> llm_calls s = MAX_ITERATIONS
        \<or> iteration s < MAX_ITERATIONS \<and> llm_calls s = Suc (iteration s)"
    by (simp add: initial_state_def s_def)
  have "MAX_ITERATIONS = 20" by (simp add: MAX_ITERATIONS_def)
  moreover from c have "llm_calls (finish s) \<le> MAX_ITERATIONS" "iteration (finish s) \<le> MAX_ITERATIONS"
    by (auto simp: finish_def)
  moreover from c have "llm_calls (finish s) = MAX_ITERATIONS"
    and "last (messages (finish s)) = system_message ''Max iterations reached. Orchestration ended.''"
    if "iteration (finish s) = MAX_ITERATIONS"
    using that by (auto simp: finish_def system_message_def)
  moreover from c have "llm_calls (finish s) = Suc (iteration (finish s))"
    if "iteration (finish s) < MAX_ITERATIONS"
    using that by (auto simp: finish_def)
  ultimately show ?thesis
    unfolding st by blast
qed

theorem orchestrateTasks_bounded_witness:
  \<open>iteration (orchestrateTasks (always_env refresh_reply) [] ''site'' (sim_world [])) = 20 \<and>
   llm_calls (orchestrateTasks (always_env refresh_reply) [] ''site'' (sim_world [])) = 20 \<and>
   last (messages (orchestrateTasks (always_env refresh_reply) [] ''site'' (sim_world [])))
     = system_message ''Max iterations reached. Orchestration ended.'' \<and>
   iteration
     (orchestrateTasks sim_env [] ''site''
        (sim_world
           [Inr (Some ''{"explanation":"x","function_calls":[{"name":"readFile","arguments":{}},{"name":"constructor"},{"name":"writeFile","arguments":{"filename":"a.html"}}]}''),
            Inr (Some ''{"explanation":"y","function_calls":0}'')])) = 1 \<and>
   llm_calls
     (orchestrateTasks sim_env [] ''site''
        (sim_world
           [Inr (Some ''{"explanation":"x","function_calls":[{"name":"readFile","arguments":{}},{"name":"constructor"},{"name":"writeFile","arguments":{"filename":"a.html"}}]}''),
            Inr (Some ''{"explanation":"y","function_calls":0}'')])) = 2 \<and>
   messages
     (orchestrateTasks sim_env [] ''site''
        (sim_world
           [Inr (Some ''{"explanation":"x","function_calls":[{"name":"readFile","arguments":{}},{"name":"constructor"},{"name":"writeFile","arguments":{"filename":"a.html"}}]}''),
            Inr (Some ''{"explanation":"y","function_calls":0}'')]))
     = [\<lparr>role = Assistant, content = Some (JStr ''x'')\<rparr>,
        system_message ([CHR 0xE2, CHR 0x9D, CHR 0x8C]
          @ '' readFile failed: The path argument must be of type string.''),
        system_message ([CHR 0xE2, CHR 0x9C, CHR 0x85]
          @ '' constructor succeeded: [object Object]''),
        system_message ([CHR 0xE2, CHR 0x9D, CHR 0x8C]
          @ '' writeFile failed: The data argument must be of type string.''),
        system_message
          ''Some tasks failed. Please adjust your instructions or try a different approach.'',
        \<lparr>role = Assistant, content = Some (JStr ''y'')\<rparr>]\<close>
proof -
  let ?full = "orchestrateTasks (always_env refresh_reply) [] ''site'' (sim_world [])"
  let ?short = \<open>orchestrateTasks sim_env [] ''site''
        (sim_world
           [Inr (Some ''{"explanation":"x","function_calls":[{"name":"readFile","arguments":{}},{"name":"constructor"},{"name":"writeFile","arguments":{"filename":"a.html"}}]}''),
            Inr (Some ''{"explanation":"y","function_calls":0}'')])\<close>
  have i: "iteration ?full = 20"
    by code_simp
  have j: "iteration ?short = 1"
    by code_simp
  have m: \<open>messages ?short
     = [\<lparr>role = Assistant, content = Some (JStr ''x'')\<rparr>,
        system_message ([CHR 0xE2, CHR 0x9D, CHR 0x8C]
          @ '' readFile failed: The path argument must be of type string.''),
        system_message ([CHR 0xE2, CHR 0x9C, CHR 0x85]
          @ '' constructor succeeded: [object Object]''),
        system_message ([CHR 0xE2, CHR 0x9D, CHR 0x8C]
          @ '' writeFile failed: The data argument must be of type string.''),
        system_message
          ''Some tasks failed. Please adjust your instructions or try a different approach.'',
        \<lparr>role = Assistant, content = Some (JStr ''y'')\<rparr>]\<close>
    by code_simp
  from orchestrateTasks_bounded [of "always_env refresh_reply" "[]" "''site''" "sim_world []"] i
  have "llm_calls ?full = 20"
    "last (messages ?full) = system_message ''Max iterations reached. Orchestration ended.''"
    by (simp_all add: MAX_ITERATIONS_def)
  moreover from orchestrateTasks_bounded [of sim_env "[]" "''site''"] j
  have "llm_calls ?short = 2"
    by (simp add: MAX_ITERATIONS_def)
  ultimately show ?thesis
    using i j m by simp
qed

subsection \<open>The meta-actions\<close>





lemma takeWhile_all:
  "list_all P xs \<Longrightarrow> takeWhile P xs @ take (Suc 0) (dropWhile P xs) = xs"
  by (induction xs) auto



lemma broadcast_loggable: "meta_actions_loggable v \<Longrightarrow> broadcast v = meta_entries v"
  by (auto simp: broadcast_def meta_actions_loggable_def meta_entries_def takeWhile_all
      split: option.splits json.splits)


lemma broadcast_prefix: "prefix (broadcast v) (meta_entries v)"
proof -
  have "prefix (takeWhile P xs @ take 1 (dropWhile P xs)) xs" for P and xs :: "json list"
  proof (cases "dropWhile P xs")
    case Nil
    then show ?thesis
      by (metis append_Nil2 prefix_order.order_refl take_Nil takeWhile_dropWhile_id)
  next
    case (Cons a ys)
    then have "xs = (takeWhile P xs @ [a]) @ ys"
      by (metis append.assoc append_Cons append_Nil takeWhile_dropWhile_id)
    with Cons show ?thesis
      by (metis One_nat_def prefixI take0 take_Suc_Cons)
  qed
  then show ?thesis by (simp add: broadcast_def)
qed

subsection \<open>The cases of the first part of an iteration\<close>

lemma request_and_execute_error:
  "createChatCompletion env (messages st) (world st) = (Inl msg, w) \<Longrightarrow>
   request_and_execute env projectId st = Stopped (caught msg (asked w st))"
  by (simp add: request_and_execute_def)

lemma request_and_execute_plain:
  "createChatCompletion env (messages st) (world st) = (Inr (Some reply), w) \<Longrightarrow>
   trim reply \<noteq> [] \<Longrightarrow> extractJSONFromResponse (trim reply) = None \<Longrightarrow>
   request_and_execute env projectId st =
     Stopped (push Assistant (Some (JStr (trim reply))) (asked w st))"
  by (simp add: request_and_execute_def)


lemma request_and_execute_empty:
  "createChatCompletion env (messages st) (world st) = (Inr reply, w) \<Longrightarrow>
   reply = None \<or> trim (the reply) = [] \<Longrightarrow>
   request_and_execute env projectId st = Stopped (asked w st)"
  by (cases reply) (auto simp: request_and_execute_def)

lemma stopped_run:
  assumes "reaches env projectId (initial_state initialMessages w0) st"
    and "iteration st < MAX_ITERATIONS"
    and "request_and_execute env projectId st = Stopped s"
  shows "orchestrateTasks env initialMessages projectId w0 = s"
proof -
  from assms(3) have "iteration_body env projectId st = Break s"
    by (simp add: iteration_body_def)
  with assms(2) have "loop env projectId st = s"
    by (rule loop_Break)
  moreover from request_and_execute_Stopped [OF assms(3)] assms(2) have "finish s = s"
    by (simp add: finish_def)
  ultimately show ?thesis
    using run_reaches [OF assms(1)] by simp
qed


text \<open>
  C9. When the request to the language model throws in some iteration of a run, the run
  returns at once: its transcript is the transcript so far followed by one system
  message that carries the error's message. That iteration's request is the last one
  (it is not sent again), the iteration counter does not advance, and no function call
  is dispatched.
\<close>

theorem client_failure_ends_run:
  assumes "reaches env projectId (initial_state initialMessages w0) st"
    and "iteration st < MAX_ITERATIONS"
    and "createChatCompletion env (messages st) (world st) = (Inl msg, w)"
  shows "\<exists>st'. orchestrateTasks env initialMessages projectId w0 = st' \<and>
           messages st' = messages st @ [system_message (''Error during orchestration: '' @ msg)] \<and>
           llm_calls st' = Suc (llm_calls st) \<and> iteration st' = iteration st \<and>
           executed st' = executed st \<and> world st' = w"
  using stopped_run [OF assms(1,2) request_and_execute_error [OF assms(3)]]
  by simp

theorem client_failure_ends_run_witness:
  "\<exists>st'. orchestrateTasks sim_env [] ''site'' (sim_world [Inl ''Request failed with status code 429''])
           = st' \<and>
         messages st' =
           [system_message ''Error during orchestration: Request failed with status code 429''] \<and>
         llm_calls st' = 1 \<and> iteration st' = 0 \<and> executed st' = []"
proof -
  let ?w = "sim_world [Inl ''Request failed with status code 429'']"
  let ?st = "initial_state [] ?w"
  have r: "reaches sim_env ''site'' ?st ?st"
    by (rule reaches.here)
  have i: "iteration ?st < MAX_ITERATIONS"
    by (simp add: initial_state_def MAX_ITERATIONS_def)
  have c: "createChatCompletion sim_env (messages ?st) (world ?st)
           = (Inl ''Request failed with status code 429'', sim_world [])"
    by (simp add: sim_env_def sim_world_def initial_state_def)
  from client_failure_ends_run [OF r i c] show ?thesis
    by (auto simp: initial_state_def)
qed

text \<open>
  C2, as the source has it. The reply is trimmed first, and an empty one ends the run
  with nothing appended. When the trimmed reply is not empty and no JSON object can be
  extracted from it, the run returns with the trimmed reply appended as an assistant
  message, which is the last message of the transcript; no function call is dispatched
  in that iteration or later, and no further request is sent.
\<close>

theorem unparsable_reply_ends_run:
  assumes "reaches env projectId (initial_state initialMessages w0) st"
    and "iteration st < MAX_ITERATIONS"
    and "createChatCompletion env (messages st) (world st) = (Inr (Some reply), w)"
    and "trim reply \<noteq> []"
    and "extractJSONFromResponse (trim reply) = None"
  shows "\<exists>st'. orchestrateTasks env initialMessages projectId w0 = st' \<and>
           messages st' = messages st @ [\<lparr>role = Assistant, content = Some (JStr (trim reply))\<rparr>] \<and>
           last (messages st') = \<lparr>role = Assistant, content = Some (JStr (trim reply))\<rparr> \<and>
           executed st' = executed st \<and> llm_calls st' = Suc (llm_calls st) \<and>
           iteration st' = iteration st \<and> world st' = w"
  using stopped_run [OF assms(1,2) request_and_execute_plain [OF assms(3,4,5)]]
  by simp

theorem unparsable_reply_ends_run_witness:
  "\<exists>st'. orchestrateTasks sim_env [] ''site'' (sim_world [Inr (Some ''All done.'')]) = st' \<and>
         messages st' = [\<lparr>role = Assistant, content = Some (JStr ''All done.'')\<rparr>] \<and>
         executed st' = [] \<and> llm_calls st' = 1"
proof -
  let ?w = "sim_world [Inr (Some ''All done.'')]"
  let ?st = "initial_state [] ?w"
  have r: "reaches sim_env ''site'' ?st ?st"
    by (rule reaches.here)
  have i: "iteration ?st < MAX_ITERATIONS"
    by (simp add: initial_state_def MAX_ITERATIONS_def)
  have c: "createChatCompletion sim_env (messages ?st) (world ?st)
           = (Inr (Some ''All done.''), sim_world [])"
    by (simp add: sim_env_def sim_world_def initial_state_def)
  have t: "trim ''All done.'' = ''All done.''"
    by code_simp
  have e: "extractJSONFromResponse (trim ''All done.'') = None"
    by code_simp
  from unparsable_reply_ends_run [OF r i c _ e] t show ?thesis
    by (auto simp: initial_state_def)
qed

lemma empty_reply_ends_run:
  assumes "reaches env projectId (initial_state initialMessages w0) st"
    and "iteration st < MAX_ITERATIONS"
    and "createChatCompletion env (messages st) (world st) = (Inr reply, w)"
    and "reply = None \<or> trim (the reply) = []"
  shows "\<exists>st'. orchestrateTasks env initialMessages projectId w0 = st' \<and>
           messages st' = messages st \<and> executed st' = executed st \<and>
           llm_calls st' = Suc (llm_calls st)"
  using stopped_run [OF assms(1,2) request_and_execute_empty [OF assms(3,4)]]
  by simp

text \<open>
  C2, as the claim states it, fails twice. A reply with white space around it is not
  appended verbatim: \<^verbatim>\<open>" hi"\<close> is appended as \<^verbatim>\<open>"hi"\<close>. A reply of white space only
  cannot be parsed either, and nothing is appended for it.
\<close>

theorem raw_reply_not_verbatim:
  "extractJSONFromResponse '' hi'' = None \<and>
   messages (orchestrateTasks sim_env [] ''site'' (sim_world [Inr (Some '' hi'')]))
     = [\<lparr>role = Assistant, content = Some (JStr ''hi'')\<rparr>] \<and>
   extractJSONFromResponse ''  '' = None \<and>
   messages (orchestrateTasks sim_env [] ''site'' (sim_world [Inr (Some ''  '')]))
     = []"
  by code_simp






text \<open>
  C10, as the claim states it, counts an object with no \<^verbatim>\<open>explanation\<close> among those that
  end the run with no function call. This reply has no \<^verbatim>\<open>explanation\<close> and one call: the
  call is dispatched and the loop goes on to a second request.
\<close>

theorem missing_explanation_still_dispatches:
  \<open>extractJSONFromResponse ''{"function_calls":[{"name":"refreshUI"}]}''
     = Some (JObj [(''function_calls'', JArr [JObj [(''name'', JStr ''refreshUI'')]])]) \<and>
   messages (orchestrateTasks sim_env [] ''site''
        (sim_world [Inr (Some ''{"function_calls":[{"name":"refreshUI"}]}'')]))
     = [\<lparr>role = Assistant, content = None\<rparr>,
        system_message ([CHR 0xE2, CHR 0x9C, CHR 0x85]
          @ '' refreshUI succeeded: UI refresh triggered for project site'')] \<and>
   executed (orchestrateTasks sim_env [] ''site''
        (sim_world [Inr (Some ''{"function_calls":[{"name":"refreshUI"}]}'')]))
     = [\<lparr>functionName = Some (JStr ''refreshUI''), status = Success,
         detail = Some (JStr ''UI refresh triggered for project site'')\<rparr>] \<and>
   llm_calls (orchestrateTasks sim_env [] ''site''
        (sim_world [Inr (Some ''{"function_calls":[{"name":"refreshUI"}]}'')])) = 2 \<and>
   iteration (orchestrateTasks sim_env [] ''site''
        (sim_world [Inr (Some ''{"function_calls":[{"name":"refreshUI"}]}'')])) = 1\<close>
  by code_simp

section \<open>The registry and the file handlers\<close>

lemma ToString_string [simp]: "ToString env (Some (JStr s)) = Inr s"
  by (simp add: ToString_def)

lemma dispatch_call_unknown:
  "name \<notin> set FUNCTION_HANDLERS_keys \<Longrightarrow> name \<notin> set Object_prototype_keys \<Longrightarrow>
   obj_get fs ''name'' = Some (JStr name) \<Longrightarrow>
   dispatch_call env projectId (JObj fs) w =
     (Inr \<lparr>functionName = Some (JStr name), status = Error,
           detail = Some (JStr ''Unknown function'')\<rparr>, w)"
  by (simp add: dispatch_call_def lookup_handler_def get_prop_def)

lemma dispatch_call_throws:
  "obj_get fs ''name'' = Some (JStr name) \<Longrightarrow> lookup_handler name = Registered name \<Longrightarrow>
   call_handler env (Registered name) (obj_get fs ''arguments'') projectId w = (Inl msg, w') \<Longrightarrow>
   dispatch_call env projectId (JObj fs) w =
     (Inr \<lparr>functionName = Some (JStr name), status = Error, detail = Some (JStr msg)\<rparr>, w')"
  by (simp add: dispatch_call_def get_prop_def)

lemma dispatch_call_returns:
  "obj_get fs ''name'' = Some (JStr name) \<Longrightarrow> lookup_handler name = Registered name \<Longrightarrow>
   call_handler env (Registered name) (obj_get fs ''arguments'') projectId w = (Inr result, w') \<Longrightarrow>
   dispatch_call env projectId (JObj fs) w =
     (Inr \<lparr>functionName = Some (JStr name), status = Success, detail = result\<rparr>, w')"
  by (simp add: dispatch_call_def get_prop_def)

text \<open>
  C7. The claim: a name that is not registered always yields the result
  \<^verbatim>\<open>{status: error, error: "Unknown function"}\<close>. The registry is an object literal, and a
  name such as \<^verbatim>\<open>toString\<close> is found on its prototype: it is not one of the registered
  handlers, yet the call succeeds with \<^verbatim>\<open>[object Undefined]\<close>.
\<close>

theorem inherited_name_is_dispatched:
  "''toString'' \<notin> set FUNCTION_HANDLERS_keys \<and>
   lookup_handler ''toString'' = Inherited ''toString'' \<and>
   dispatch_call sim_env ''site''
     (JObj [(''name'', JStr ''toString''), (''arguments'', JObj [])]) (sim_world [])
     = (Inr \<lparr>functionName = Some (JStr ''toString''), status = Success,
              detail = Some (JStr ''[object Undefined]'')\<rparr>,
        sim_world [])"
  by code_simp

lemma invalid_path_rejected:
  assumes "obj_get fs ''filename'' = Some (JStr filename)"
    and "\<not> validateFilePath (dirname env) (cwd env) projectId filename"
  shows "readFile env (Some (JObj fs)) projectId w = (Inl ''Invalid file path'', w)"
    and "writeFile env (Some (JObj fs)) projectId w = (Inl ''Invalid file path'', w)"
    and "createFile env (Some (JObj fs)) projectId w = (Inl ''Invalid file path'', w)"
    and "deleteFile env (Some (JObj fs)) projectId w = (Inl ''Invalid file path'', w)"
  using assms
  by (simp_all add: readFile_def writeFile_def createFile_def deleteFile_def destructure_def
      checked_filename_def get_prop_def)

text \<open>
  C8. The claim: a file name that resolves outside the project directory is rejected by
  every file operation. The check is \<^verbatim>\<open>resolved.startsWith(projectDir)\<close> on the text of
  the paths, so a sibling directory whose name starts with the project's name passes:
  from project \<^verbatim>\<open>foo\<close>, the name \<^verbatim>\<open>../foobar/index.html\<close> resolves into project
  \<^verbatim>\<open>foobar\<close>, is accepted, and \<^verbatim>\<open>readFile\<close> returns that file and \<^verbatim>\<open>createFile\<close> writes
  there.
\<close>

theorem sibling_directory_accepted:
  "path_join [PROJECTS_DIR ''/srv/app'', ''foo''] = ''/srv/app/projects/foo'' \<and>
   path_resolve ''/srv/app'' [''/srv/app/projects/foo'', ''../foobar/index.html'']
     = ''/srv/app/projects/foobar/index.html'' \<and>
   validateFilePath ''/srv/app'' ''/srv/app'' ''foo'' ''../foobar/index.html'' \<and>
   readFile sim_env (Some (JObj [(''filename'', JStr ''../foobar/index.html'')])) ''foo''
     ((sim_world [])\<lparr>files := [(''/srv/app/projects/foobar/index.html'', ''secret'')]\<rparr>)
     = (Inr ''secret'',
        (sim_world [])\<lparr>files := [(''/srv/app/projects/foobar/index.html'', ''secret'')]\<rparr>) \<and>
   (\<lambda>r. (fst r, files (snd r)))
     (createFile sim_env
        (Some (JObj [(''filename'', JStr ''../foobar/new.html''), (''content'', JStr ''x'')]))
        ''foo'' (sim_world []))
     = (Inr ''File ../foobar/new.html created successfully.'',
        [(''/srv/app/projects/foobar/new.html'', ''x'')])"
  by code_simp

section \<open>The batch and the failure streak\<close>












subsection \<open>The end of an iteration\<close>

















section \<open>The repeat warning\<close>




end
